theory Spec2Isabelle
  imports Complex_Main "HOL-Library.Word"
begin

section \<open>Values exchanged with the dispatcher\<close>

text \<open>
  Go's \<open>interface{}\<close> payloads are the values that \<open>encoding/json\<close> reads and writes.
  A Go \<open>map[string]interface{}\<close> is an association list here; a key is looked up with
  \<open>map_of\<close>. No function of the agent inspects a number, so numbers are integers
  (timestamps, exit codes). The nil interface is \<open>JNull\<close>.
\<close>

datatype json =
    JNull
  | JBool bool
  | JNum int
  | JStr string
  | JArr "json list"
  | JObj "(string \<times> json) list"

text \<open>\<open>v, _ := m[key].(string)\<close>: the string under the key, or the empty string.\<close>

definition str_field :: "(string \<times> json) list \<Rightarrow> string \<Rightarrow> string" where
  "str_field m k = (case map_of m k of Some (JStr s) \<Rightarrow> s | _ \<Rightarrow> [])"

text \<open>The loop that copies the string-valued entries of a map into a \<open>map[string]string\<close>.\<close>

fun string_entries :: "(string \<times> json) list \<Rightarrow> (string \<times> string) list" where
  "string_entries [] = []"
| "string_entries ((k, JStr s) # kvs) = (k, s) # string_entries kvs"
| "string_entries (_ # kvs) = string_entries kvs"

text \<open>
  The optional \<open>headers\<close> and \<open>env\<close> maps: \<open>None\<close> is the nil map, left when the key
  is absent or does not hold a map.
\<close>

definition string_map_field :: "(string \<times> json) list \<Rightarrow> string \<Rightarrow> (string \<times> string) list option" where
  "string_map_field m k =
     (case map_of m k of Some (JObj hm) \<Rightarrow> Some (string_entries hm) | _ \<Rightarrow> None)"

text \<open>\<open>time.Duration\<close> is a signed 64-bit count of nanoseconds.\<close>

type_synonym Duration = "64 word"

definition Second :: Duration where
  "Second = 1000000000"

section \<open>Configuration\<close>

text \<open>
  \<open>BackoffMultiplier\<close> is a \<open>float64\<close>; its finite values are rationals, and only they
  are modelled (no NaN, no infinity). \<open>MaxAttempts\<close> is a Go \<open>int\<close>.
\<close>

record Reconnect =
  Enabled :: bool
  MaxAttempts :: int
  InitialDelay :: Duration
  MaxDelay :: Duration
  BackoffMultiplier :: rat

record EnabledCommands =
  APICall :: bool
  HTTPRequest :: bool
  SSHCommand :: bool

record Config =
  ws_Enabled :: bool
  URL :: string
  ClientID :: string
  Protocol :: string
  reconnect :: Reconnect
  QuickCommands :: "(string \<times> json) list"
  enabledCommands :: EnabledCommands

section \<open>Command processing (internal/client)\<close>

record Command =
  cmd_Type :: string
  cmd_Payload :: json
  cmd_ID :: string

record CommandResponse =
  resp_ID :: string
  resp_Success :: bool
  resp_Data :: json
  resp_Error :: string

record APIResponse =
  api_Success :: bool
  api_Data :: json
  api_Error :: string

record LocalCommand =
  lc_Command :: string
  lc_Env :: "(string \<times> string) list option"
  lc_WorkDir :: string
  lc_Timeout :: Duration

record LocalResult =
  lr_ExitCode :: int
  lr_Stdout :: string
  lr_Stderr :: string
  lr_Duration :: string

text \<open>
  The executors are the external collaborators: the HTTP client of \<open>internal/proxy\<close>, the
  shell runner of \<open>internal/local\<close> and \<open>time.ParseDuration\<close>. Each is a parameter; an
  executor returns its error text on the left (\<open>fmt.Sprintf("%v", err)\<close>).
\<close>

record executors =
  ExecuteAPICall :: "string \<Rightarrow> string \<Rightarrow> (string \<times> string) list option \<Rightarrow> json \<Rightarrow> string + APIResponse"
  ExecuteHTTPRequest :: "string \<Rightarrow> string \<Rightarrow> (string \<times> string) list option \<Rightarrow> json \<Rightarrow> string + APIResponse"
  ExecuteCommand :: "LocalCommand \<Rightarrow> string + LocalResult"
  ParseDuration :: "string \<Rightarrow> Duration option"

text \<open>
  An executor call is an effect of the handler. Each handler returns its response together
  with the executor calls it made, in order.
\<close>

datatype exec_call =
    APICallExec string string "(string \<times> string) list option" json
  | HTTPRequestExec string string "(string \<times> string) list option" json
  | LocalExec LocalCommand

definition failure :: "string \<Rightarrow> string \<Rightarrow> CommandResponse" where
  "failure i e = \<lparr>resp_ID = i, resp_Success = False, resp_Data = JNull, resp_Error = e\<rparr>"

definition body_field :: "(string \<times> json) list \<Rightarrow> json" where
  "body_field m = (case map_of m ''body'' of Some b \<Rightarrow> b | None \<Rightarrow> JNull)"

definition handleAPICall :: "executors \<Rightarrow> Command \<Rightarrow> CommandResponse \<times> exec_call list" where
  "handleAPICall ex command =
     (case cmd_Payload command of
        JObj payload \<Rightarrow>
          (let url = str_field payload ''url'';
               method0 = str_field payload ''method'';
               method = (if method0 = [] then ''POST'' else method0);
               headers = string_map_field payload ''headers'';
               body = body_field payload;
               calls = [APICallExec url method headers body]
           in case ExecuteAPICall ex url method headers body of
                Inl err \<Rightarrow> (failure (cmd_ID command) (''API call failed 1: '' @ err), calls)
              | Inr result \<Rightarrow>
                  (\<lparr>resp_ID = cmd_ID command, resp_Success = api_Success result,
                    resp_Data = api_Data result, resp_Error = api_Error result\<rparr>, calls))
      | _ \<Rightarrow> (failure (cmd_ID command) ''Invalid payload format for api_call'', []))"

definition handleHTTPRequest :: "executors \<Rightarrow> Command \<Rightarrow> CommandResponse \<times> exec_call list" where
  "handleHTTPRequest ex command =
     (case cmd_Payload command of
        JObj payload \<Rightarrow>
          (let url = str_field payload ''url'';
               method0 = str_field payload ''method'';
               method = (if method0 = [] then ''GET'' else method0);
               headers = string_map_field payload ''headers'';
               body = body_field payload;
               calls = [HTTPRequestExec url method headers body]
           in case ExecuteHTTPRequest ex url method headers body of
                Inl err \<Rightarrow> (failure (cmd_ID command) (''HTTP request failed: '' @ err), calls)
              | Inr result \<Rightarrow>
                  (\<lparr>resp_ID = cmd_ID command, resp_Success = api_Success result,
                    resp_Data = api_Data result, resp_Error = api_Error result\<rparr>, calls))
      | _ \<Rightarrow> (failure (cmd_ID command) ''Invalid payload format for http_request'', []))"

text \<open>The \<open>timeout\<close> field: a string that parses as a duration, otherwise zero.\<close>

definition timeout_field :: "executors \<Rightarrow> (string \<times> json) list \<Rightarrow> Duration" where
  "timeout_field ex m =
     (case map_of m ''timeout'' of
        Some (JStr s) \<Rightarrow> (case ParseDuration ex s of Some d \<Rightarrow> d | None \<Rightarrow> 0)
      | _ \<Rightarrow> 0)"

text \<open>A \<open>LocalResult\<close> as it is marshalled (the struct's JSON tags).\<close>

definition LocalResult_json :: "LocalResult \<Rightarrow> json" where
  "LocalResult_json r =
     JObj [(''exit_code'', JNum (lr_ExitCode r)), (''stdout'', JStr (lr_Stdout r)),
           (''stderr'', JStr (lr_Stderr r)), (''duration'', JStr (lr_Duration r))]"

definition handleSSHCommand :: "executors \<Rightarrow> Command \<Rightarrow> CommandResponse \<times> exec_call list" where
  "handleSSHCommand ex command =
     (case cmd_Payload command of
        JObj payload \<Rightarrow>
          (let commandStr = str_field payload ''command'' in
           if commandStr = [] then
             (failure (cmd_ID command) ''command is required for ssh_command'', [])
           else
             (let localCmd = \<lparr>lc_Command = commandStr,
                              lc_Env = string_map_field payload ''env'',
                              lc_WorkDir = str_field payload ''work_dir'',
                              lc_Timeout = timeout_field ex payload\<rparr>;
                  calls = [LocalExec localCmd]
              in case ExecuteCommand ex localCmd of
                   Inl err \<Rightarrow>
                     (failure (cmd_ID command) (''Command execution failed: '' @ err), calls)
                 | Inr result \<Rightarrow>
                     (\<lparr>resp_ID = cmd_ID command, resp_Success = (lr_ExitCode result = 0),
                       resp_Data = LocalResult_json result, resp_Error = []\<rparr>, calls)))
      | _ \<Rightarrow> (failure (cmd_ID command) ''Invalid payload format for ssh_command'', []))"

definition handleCustom :: "Command \<Rightarrow> CommandResponse \<times> exec_call list" where
  "handleCustom command =
     (\<lparr>resp_ID = cmd_ID command, resp_Success = True,
       resp_Data = JObj [(''message'', JStr ''Custom command executed''),
                         (''received_payload'', cmd_Payload command)],
       resp_Error = []\<rparr>, [])"

text \<open>
  The last step of \<open>handleQuickCommand\<close>: the resolved command goes to the handler of its
  type, with the identifier of the incoming command.
\<close>

definition runQuickCommand ::
  "executors \<Rightarrow> Command \<Rightarrow> string \<Rightarrow> json \<Rightarrow> CommandResponse \<times> exec_call list" where
  "runQuickCommand ex command cmdTypeStr cmdPayload =
     (let newCommand = \<lparr>cmd_Type = cmdTypeStr, cmd_Payload = cmdPayload, cmd_ID = cmd_ID command\<rparr>
      in if cmdTypeStr = ''api_call'' then handleAPICall ex newCommand
         else if cmdTypeStr = ''http_request'' then handleHTTPRequest ex newCommand
         else if cmdTypeStr = ''ssh_command'' then handleSSHCommand ex newCommand
         else (failure (cmd_ID command) (''Unsupported quick command type: '' @ cmdTypeStr), []))"

definition handleQuickCommand ::
  "Config \<Rightarrow> executors \<Rightarrow> Command \<Rightarrow> CommandResponse \<times> exec_call list" where
  "handleQuickCommand cfg ex command =
     (case cmd_Payload command of
        JObj payload \<Rightarrow>
          (case map_of payload ''command'' of
             None \<Rightarrow> (failure (cmd_ID command) ''command name is required for quick_command'', [])
           | Some (JStr commandNameStr) \<Rightarrow>
               (case map_of (QuickCommands cfg) commandNameStr of
                  None \<Rightarrow>
                    (failure (cmd_ID command)
                       (''Quick command '' @ [CHR 0x27] @ commandNameStr @ [CHR 0x27] @ '' not found''), [])
                | Some (JObj quickCmdMap) \<Rightarrow>
                    (case map_of quickCmdMap ''type'' of
                       None \<Rightarrow>
                         (failure (cmd_ID command)
                            (''Quick command '' @ [CHR 0x27] @ commandNameStr @ [CHR 0x27] @ '' missing type''), [])
                     | Some (JStr cmdTypeStr) \<Rightarrow>
                         runQuickCommand ex command cmdTypeStr
                           (case map_of quickCmdMap ''payload'' of
                              Some p \<Rightarrow> p | None \<Rightarrow> JObj [])
                     | Some _ \<Rightarrow>
                         (failure (cmd_ID command)
                            (''Quick command '' @ [CHR 0x27] @ commandNameStr @ [CHR 0x27]
                               @ '' type must be a string''), []))
                | Some _ \<Rightarrow>
                    (failure (cmd_ID command)
                       (''Invalid quick command format for '' @ [CHR 0x27] @ commandNameStr @ [CHR 0x27]), []))
           | Some _ \<Rightarrow> (failure (cmd_ID command) ''command name must be a string'', []))
      | _ \<Rightarrow> (failure (cmd_ID command) ''Invalid payload format for quick_command'', []))"

definition disabled_message :: "string \<Rightarrow> string" where
  "disabled_message t = t @ '' commands are disabled''"

definition processCommand ::
  "Config \<Rightarrow> executors \<Rightarrow> Command \<Rightarrow> CommandResponse \<times> exec_call list" where
  "processCommand cfg ex command =
     (if cmd_Type command = ''api_call'' then
        (if \<not> APICall (enabledCommands cfg)
         then (failure (cmd_ID command) ''api_call commands are disabled'', [])
         else handleAPICall ex command)
      else if cmd_Type command = ''http_request'' then
        (if \<not> HTTPRequest (enabledCommands cfg)
         then (failure (cmd_ID command) ''http_request commands are disabled'', [])
         else handleHTTPRequest ex command)
      else if cmd_Type command = ''ssh_command'' then
        (if \<not> SSHCommand (enabledCommands cfg)
         then (failure (cmd_ID command) ''ssh_command commands are disabled'', [])
         else handleSSHCommand ex command)
      else if cmd_Type command = ''quick_command'' then handleQuickCommand cfg ex command
      else if cmd_Type command = ''custom'' then handleCustom command
      else
        (failure (cmd_ID command)
           (''Unknown command type: '' @ cmd_Type command
              @ ''. Supported types: api_call, http_request, ssh_command, quick_command, open_cell, get_cell_status, add_key, delete_key, sync_keys, reboot, status, update, custom''), []))"

text \<open>
  \<open>handleTCPCommand\<close> and \<open>handleWebSocketCommand\<close> are the handlers the client injects
  into the transports. A \<open>CommandResponse\<close> is written as it is marshalled: \<open>data\<close> and
  \<open>error\<close> are \<open>omitempty\<close>.
\<close>

definition CommandResponse_json :: "CommandResponse \<Rightarrow> json" where
  "CommandResponse_json r =
     JObj ([(''id'', JStr (resp_ID r)), (''success'', JBool (resp_Success r))]
           @ (if resp_Data r = JNull then [] else [(''data'', resp_Data r)])
           @ (if resp_Error r = [] then [] else [(''error'', JStr (resp_Error r))]))"

type_synonym tcp_message = "(string \<times> json) list"

record WSMessage =
  ws_Type :: string
  ws_Payload :: json
  ws_ID :: string

definition handleTCPCommand :: "Config \<Rightarrow> executors \<Rightarrow> tcp_message \<Rightarrow> tcp_message option" where
  "handleTCPCommand cfg ex message =
     (let command = \<lparr>cmd_Type = str_field message ''type'',
                      cmd_Payload = (case map_of message ''payload'' of Some p \<Rightarrow> p | None \<Rightarrow> JNull),
                      cmd_ID = str_field message ''id''\<rparr>;
          response = fst (processCommand cfg ex command)
      in Some [(''type'', JStr ''command_response''),
               (''payload'', CommandResponse_json response),
               (''id'', JStr (resp_ID response))])"

definition handleWebSocketCommand :: "Config \<Rightarrow> executors \<Rightarrow> WSMessage \<Rightarrow> WSMessage" where
  "handleWebSocketCommand cfg ex message =
     (let command = \<lparr>cmd_Type = ws_Type message, cmd_Payload = ws_Payload message,
                      cmd_ID = ws_ID message\<rparr>;
          response = fst (processCommand cfg ex command)
      in \<lparr>ws_Type = ''command_response'', ws_Payload = CommandResponse_json response,
          ws_ID = ws_ID message\<rparr>)"

section \<open>The outbound queue\<close>

text \<open>
  A buffered Go channel: the elements waiting in it, oldest first, and its capacity.
\<close>

record 'a chan =
  buf :: "'a list"
  cap :: nat

definition make_chan :: "nat \<Rightarrow> 'a chan" where
  "make_chan n = \<lparr>buf = [], cap = n\<rparr>"

text \<open>
  \<open>select { case ch <- x: ...; case <-time.After(d): ... }\<close>. With room in the buffer the
  send is taken at once. On a full buffer the send waits for a receive; a receive by the
  writer during the wait is a step of the writer that comes first (\<open>chan_receive\<close>), so the
  outcome given here for a full buffer is the other one: nothing is received for \<open>d\<close>, the
  timer fires and the element is not sent.
\<close>

datatype 'a select_send = Sent "'a chan" | AfterFired Duration

definition send_or_after :: "'a chan \<Rightarrow> 'a \<Rightarrow> Duration \<Rightarrow> 'a select_send" where
  "send_or_after ch x d =
     (if length (buf ch) < cap ch then Sent (ch\<lparr>buf := buf ch @ [x]\<rparr>) else AfterFired d)"

text \<open>\<open>x := <-ch\<close> on a channel that holds an element; on an empty one the receiver waits.\<close>

definition chan_receive :: "'a chan \<Rightarrow> ('a \<times> 'a chan) option" where
  "chan_receive ch = (case buf ch of [] \<Rightarrow> None | x # xs \<Rightarrow> Some (x, ch\<lparr>buf := xs\<rparr>))"

datatype send_error = NotConnected | MarshalFailed | SendTimeout

datatype connect_error = DialFailed

text \<open>The goroutines a transport starts (\<open>go c.readPump(ctx)\<close> and so on).\<close>

datatype task = ReadPump | WritePump | PingPump

section \<open>The stream transport (internal/tcp)\<close>

text \<open>
  What was done on a \<open>net.Conn\<close>: the data written, in order, and its closing. A write on a
  closed connection fails.
\<close>

datatype 'b tcp_op = Wrote 'b | Closed

text \<open>
  The client over any type \<open>'b\<close> of byte strings. \<open>tcp_conn\<close> is \<open>None\<close> for the nil
  connection. \<open>tcp_handled\<close> lists the messages passed to the command handler and
  \<open>tcp_spawned\<close> the goroutines started so far. \<open>json.Marshal\<close>, \<open>json.Unmarshal\<close> and
  the clock are parameters of the functions that use them.
\<close>

record 'b TCPClient =
  tcp_conn :: "'b tcp_op list option"
  tcp_connected :: bool
  tcp_sendChan :: "'b chan"
  tcp_commandHandler :: "(tcp_message \<Rightarrow> tcp_message option) option"
  tcp_handled :: "tcp_message list"
  tcp_spawned :: "task list"

definition NewTCPClient :: "'b TCPClient" where
  "NewTCPClient =
     \<lparr>tcp_conn = None, tcp_connected = False, tcp_sendChan = make_chan 256,
      tcp_commandHandler = None, tcp_handled = [], tcp_spawned = []\<rparr>"

definition tcp_SetCommandHandler ::
  "(tcp_message \<Rightarrow> tcp_message option) \<Rightarrow> 'b TCPClient \<Rightarrow> 'b TCPClient" where
  "tcp_SetCommandHandler handler c = c\<lparr>tcp_commandHandler := Some handler\<rparr>"

definition tcp_IsConnected :: "'b TCPClient \<Rightarrow> bool" where
  "tcp_IsConnected c = tcp_connected c"

text \<open>
  \<open>SendCommand\<close> returns its error, or the client with the message queued, and with it
  the time the call has spent blocked in the \<open>select\<close>: none when it returns before the
  \<open>select\<close> or the send is taken at once, the time of the timer when the timer fires.
\<close>

definition tcp_SendCommand ::
  "(tcp_message \<Rightarrow> 'b option) \<Rightarrow> tcp_message \<Rightarrow> 'b TCPClient
     \<Rightarrow> (send_error + 'b TCPClient) \<times> Duration" where
  "tcp_SendCommand marshal payload c =
     (if \<not> tcp_IsConnected c then (Inl NotConnected, 0)
      else case marshal payload of
             None \<Rightarrow> (Inl MarshalFailed, 0)
           | Some data \<Rightarrow>
               (case send_or_after (tcp_sendChan c) data (5 * Second) of
                  Sent ch \<Rightarrow> (Inr (c\<lparr>tcp_sendChan := ch\<rparr>), 0)
                | AfterFired waited \<Rightarrow> (Inl SendTimeout, waited)))"

text \<open>A caller that logs or drops the error of \<open>SendCommand\<close> goes on with the client as it was.\<close>

definition tcp_send_logged ::
  "(tcp_message \<Rightarrow> 'b option) \<Rightarrow> tcp_message \<Rightarrow> 'b TCPClient \<Rightarrow> 'b TCPClient" where
  "tcp_send_logged marshal payload c =
     (case fst (tcp_SendCommand marshal payload c) of Inl _ \<Rightarrow> c | Inr c' \<Rightarrow> c')"

definition tcp_identification :: "string \<Rightarrow> int \<Rightarrow> tcp_message" where
  "tcp_identification clientID now =
     [(''type'', JStr ''identify''), (''client_id'', JStr clientID), (''timestamp'', JNum now)]"

text \<open>\<open>Connect\<close>; \<open>dialed\<close> tells whether \<open>DialContext\<close> gave a connection.\<close>

definition tcp_Connect ::
  "(tcp_message \<Rightarrow> 'b option) \<Rightarrow> int \<Rightarrow> bool \<Rightarrow> string \<Rightarrow> 'b TCPClient
     \<Rightarrow> connect_error + 'b TCPClient" where
  "tcp_Connect marshal now dialed clientID c =
     (if \<not> dialed then Inl DialFailed
      else
        (let c1 = c\<lparr>tcp_conn := Some [], tcp_connected := True\<rparr>;
             c2 = tcp_send_logged marshal (tcp_identification clientID now) c1
         in Inr (c2\<lparr>tcp_spawned := tcp_spawned c2 @ [ReadPump, WritePump]\<rparr>)))"

definition tcp_Disconnect :: "'b TCPClient \<Rightarrow> 'b TCPClient" where
  "tcp_Disconnect c =
     (if \<not> tcp_connected c then c
      else
        (let c1 = c\<lparr>tcp_connected := False\<rparr>
         in case tcp_conn c1 of
              None \<Rightarrow> c1
            | Some ops \<Rightarrow> c1\<lparr>tcp_conn := Some (ops @ [Closed])\<rparr>))"

text \<open>
  One turn of the loop of \<open>writePump\<close> when the channel case is taken: the oldest element
  is received and written. \<open>ok\<close> tells whether the network accepts the write. The result
  says whether the loop goes on; after a write error the writer has returned. The pumps
  are started by \<open>Connect\<close> once the connection is set; on the nil connection the write
  would panic, which ends the writer as well.
\<close>

definition tcp_writePump_step :: "bool \<Rightarrow> 'b TCPClient \<Rightarrow> 'b TCPClient \<times> bool" where
  "tcp_writePump_step ok c =
     (case chan_receive (tcp_sendChan c) of
        None \<Rightarrow> (c, True)
      | Some (data, ch) \<Rightarrow>
          (let c1 = c\<lparr>tcp_sendChan := ch\<rparr>
           in case tcp_conn c1 of
                None \<Rightarrow> (c1, False)
              | Some ops \<Rightarrow>
                  if ok \<and> Closed \<notin> set ops
                  then (c1\<lparr>tcp_conn := Some (ops @ [Wrote data])\<rparr>, True)
                  else (c1, False)))"

text \<open>The messages for the injected handler: it is recorded, called, and its answer sent.\<close>

definition tcp_forward ::
  "(tcp_message \<Rightarrow> 'b option) \<Rightarrow> tcp_message \<Rightarrow> 'b TCPClient \<Rightarrow> 'b TCPClient" where
  "tcp_forward marshal message c =
     (case tcp_commandHandler c of
        None \<Rightarrow> c
      | Some handler \<Rightarrow>
          (let c1 = c\<lparr>tcp_handled := tcp_handled c @ [message]\<rparr>
           in case handler message of
                None \<Rightarrow> c1
              | Some response \<Rightarrow> tcp_send_logged marshal response c1))"

definition tcp_handleMessage ::
  "('b \<Rightarrow> tcp_message option) \<Rightarrow> (tcp_message \<Rightarrow> 'b option) \<Rightarrow> int \<Rightarrow> 'b
     \<Rightarrow> 'b TCPClient \<Rightarrow> 'b TCPClient" where
  "tcp_handleMessage unmarshal marshal now data c =
     (case unmarshal data of
        None \<Rightarrow> c
      | Some message \<Rightarrow>
          (case map_of message ''type'' of
             Some (JStr msgType) \<Rightarrow>
               if msgType = ''identification_success'' then c
               else if msgType = ''status_request'' then
                 tcp_send_logged marshal
                   [(''type'', JStr ''status_response''), (''connected'', JBool (tcp_IsConnected c)),
                    (''client_id'', JStr ''tcp-client''), (''timestamp'', JNum now)] c
               else if msgType = ''ping'' then
                 tcp_send_logged marshal
                   [(''type'', JStr ''pong''), (''timestamp'', JNum now)] c
               else tcp_forward marshal message c
           | _ \<Rightarrow> tcp_forward marshal message c))"

section \<open>The frame transport (internal/websocket)\<close>

text \<open>What was done on the WebSocket connection: the frames written, in order, and its closing.\<close>

datatype 'b ws_op = TextMessage 'b | PingMessage | CloseMessage | WSClosed

record 'b WSClient =
  wsc_conn :: "'b ws_op list option"
  wsc_connected :: bool
  wsc_sendChan :: "'b chan"
  wsc_reconnect :: bool
  wsc_pingInterval :: Duration
  wsc_commandHandler :: "(WSMessage \<Rightarrow> WSMessage) option"
  wsc_handled :: "WSMessage list"
  wsc_spawned :: "task list"

definition NewWSClient :: "'b WSClient" where
  "NewWSClient =
     \<lparr>wsc_conn = None, wsc_connected = False, wsc_sendChan = make_chan 256,
      wsc_reconnect = False, wsc_pingInterval = 30 * Second,
      wsc_commandHandler = None, wsc_handled = [], wsc_spawned = []\<rparr>"

definition ws_SetCommandHandler :: "(WSMessage \<Rightarrow> WSMessage) \<Rightarrow> 'b WSClient \<Rightarrow> 'b WSClient" where
  "ws_SetCommandHandler handler c = c\<lparr>wsc_commandHandler := Some handler\<rparr>"

definition ws_IsConnected :: "'b WSClient \<Rightarrow> bool" where
  "ws_IsConnected c = wsc_connected c"

text \<open>As on the stream transport, \<open>SendCommand\<close> returns the time it has spent blocked as well.\<close>

definition ws_SendCommand ::
  "(WSMessage \<Rightarrow> 'b option) \<Rightarrow> string \<Rightarrow> json \<Rightarrow> string \<Rightarrow> 'b WSClient
     \<Rightarrow> (send_error + 'b WSClient) \<times> Duration" where
  "ws_SendCommand marshal cmdType payload i c =
     (if \<not> ws_IsConnected c then (Inl NotConnected, 0)
      else case marshal \<lparr>ws_Type = cmdType, ws_Payload = payload, ws_ID = i\<rparr> of
             None \<Rightarrow> (Inl MarshalFailed, 0)
           | Some data \<Rightarrow>
               (case send_or_after (wsc_sendChan c) data (5 * Second) of
                  Sent ch \<Rightarrow> (Inr (c\<lparr>wsc_sendChan := ch\<rparr>), 0)
                | AfterFired waited \<Rightarrow> (Inl SendTimeout, waited)))"

definition ws_send_logged ::
  "(WSMessage \<Rightarrow> 'b option) \<Rightarrow> string \<Rightarrow> json \<Rightarrow> string \<Rightarrow> 'b WSClient \<Rightarrow> 'b WSClient" where
  "ws_send_logged marshal cmdType payload i c =
     (case fst (ws_SendCommand marshal cmdType payload i c) of Inl _ \<Rightarrow> c | Inr c' \<Rightarrow> c')"

definition ws_identification :: "string \<Rightarrow> int \<Rightarrow> json" where
  "ws_identification clientID now =
     JObj [(''type'', JStr ''identify''), (''client_id'', JStr clientID), (''timestamp'', JNum now)]"

definition ws_Connect ::
  "(WSMessage \<Rightarrow> 'b option) \<Rightarrow> int \<Rightarrow> bool \<Rightarrow> string \<Rightarrow> 'b WSClient
     \<Rightarrow> connect_error + 'b WSClient" where
  "ws_Connect marshal now dialed clientID c =
     (if \<not> dialed then Inl DialFailed
      else
        (let c1 = c\<lparr>wsc_conn := Some [], wsc_connected := True\<rparr>;
             c2 = ws_send_logged marshal ''identification'' (ws_identification clientID now) ''init'' c1
         in Inr (c2\<lparr>wsc_spawned := wsc_spawned c2 @ [ReadPump, WritePump, PingPump]\<rparr>)))"

text \<open>
  \<open>Disconnect\<close> writes a close frame (its error is only logged; \<open>ok\<close> tells whether the
  frame is written) and closes the connection.
\<close>

definition ws_Disconnect :: "bool \<Rightarrow> 'b WSClient \<Rightarrow> 'b WSClient" where
  "ws_Disconnect ok c =
     (if \<not> wsc_connected c then c
      else
        (let c1 = c\<lparr>wsc_connected := False, wsc_reconnect := False\<rparr>
         in case wsc_conn c1 of
              None \<Rightarrow> c1
            | Some ops \<Rightarrow>
                c1\<lparr>wsc_conn := Some (ops @ (if ok \<and> WSClosed \<notin> set ops then [CloseMessage] else [])
                                       @ [WSClosed])\<rparr>))"

definition ws_writePump_step :: "bool \<Rightarrow> 'b WSClient \<Rightarrow> 'b WSClient \<times> bool" where
  "ws_writePump_step ok c =
     (case chan_receive (wsc_sendChan c) of
        None \<Rightarrow> (c, True)
      | Some (data, ch) \<Rightarrow>
          (let c1 = c\<lparr>wsc_sendChan := ch\<rparr>
           in case wsc_conn c1 of
                None \<Rightarrow> (c1, False)
              | Some ops \<Rightarrow>
                  if ok \<and> WSClosed \<notin> set ops
                  then (c1\<lparr>wsc_conn := Some (ops @ [TextMessage data])\<rparr>, True)
                  else (c1, False)))"

text \<open>
  \<open>pingPump\<close> waits on \<open>time.NewTicker(54 * time.Second)\<close>. One tick: a ping frame is
  written if the client is connected; a write error ends the pump, and nothing else.
\<close>

definition pingPump_ticker :: Duration where
  "pingPump_ticker = 54 * Second"

definition ws_pingPump_tick :: "bool \<Rightarrow> 'b WSClient \<Rightarrow> 'b WSClient \<times> bool" where
  "ws_pingPump_tick ok c =
     (if ws_IsConnected c then
        (case wsc_conn c of
           None \<Rightarrow> (c, False)
         | Some ops \<Rightarrow>
             if ok \<and> WSClosed \<notin> set ops
             then (c\<lparr>wsc_conn := Some (ops @ [PingMessage])\<rparr>, True)
             else (c, False))
      else (c, True))"

text \<open>
  The messages for the injected handler. An answer whose type is empty is not sent. The
  answer is put on the channel directly, under the same five-second timer.
\<close>

definition ws_forward :: "(WSMessage \<Rightarrow> 'b option) \<Rightarrow> WSMessage \<Rightarrow> 'b WSClient \<Rightarrow> 'b WSClient" where
  "ws_forward marshal message c =
     (case wsc_commandHandler c of
        None \<Rightarrow> c
      | Some handler \<Rightarrow>
          (let c1 = c\<lparr>wsc_handled := wsc_handled c @ [message]\<rparr>;
               response = handler message
           in if ws_Type response \<noteq> [] then
                (case marshal response of
                   None \<Rightarrow> c1
                 | Some responseData \<Rightarrow>
                     (case send_or_after (wsc_sendChan c1) responseData (5 * Second) of
                        Sent ch \<Rightarrow> c1\<lparr>wsc_sendChan := ch\<rparr>
                      | AfterFired _ \<Rightarrow> c1))
              else c1))"

definition ws_handleMessage ::
  "('b \<Rightarrow> WSMessage option) \<Rightarrow> (WSMessage \<Rightarrow> 'b option) \<Rightarrow> int \<Rightarrow> 'b
     \<Rightarrow> 'b WSClient \<Rightarrow> 'b WSClient" where
  "ws_handleMessage unmarshal marshal now data c =
     (case unmarshal data of
        None \<Rightarrow> c
      | Some message \<Rightarrow>
          if ws_Type message = ''identification_success'' then c
          else if ws_Type message = ''status_request'' then
            ws_send_logged marshal ''status_response''
              (JObj [(''connected'', JBool (ws_IsConnected c)),
                     (''client_id'', JStr ''websocket-client''), (''timestamp'', JNum now)])
              (ws_ID message) c
          else if ws_Type message = ''ping'' then
            ws_send_logged marshal ''pong'' (JObj [(''timestamp'', JNum now)]) (ws_ID message) c
          else ws_forward marshal message c)"

section \<open>The supervisor loop (startConnectionClient)\<close>

text \<open>
  \<open>time.Duration(f)\<close> for a \<open>float64\<close>: the fraction is discarded. Go leaves the
  result to the implementation when the value does not fit 64 bits; it wraps here.
\<close>

definition Duration_of_float64 :: "rat \<Rightarrow> Duration" where
  "Duration_of_float64 x = word_of_int (if 0 \<le> x then \<lfloor>x\<rfloor> else \<lceil>x\<rceil>)"

text \<open>
  \<open>for i := 1; i < reconnectAttempts; i++ { delay *= m }\<close>, on 64-bit durations: the
  product wraps around.
\<close>

function backoff_loop :: "int \<Rightarrow> int \<Rightarrow> Duration \<Rightarrow> Duration \<Rightarrow> Duration" where
  "backoff_loop i reconnectAttempts m delay =
     (if i < reconnectAttempts then backoff_loop (i + 1) reconnectAttempts m (delay * m)
      else delay)"
  by pat_completeness auto
termination
  by (relation "measure (\<lambda>(i, n, m, d). nat (n - i))") auto

definition backoff_delay :: "Reconnect \<Rightarrow> int \<Rightarrow> Duration" where
  "backoff_delay r reconnectAttempts =
     (let delay = backoff_loop 1 reconnectAttempts
                    (Duration_of_float64 (BackoffMultiplier r)) (InitialDelay r)
      in if MaxDelay r <s delay then MaxDelay r else delay)"

text \<open>The address dialled: the stream transport drops the scheme of the URL.\<close>

definition tcp_address :: "string \<Rightarrow> string" where
  "tcp_address address =
     (if length address > 5 \<and> take 5 address = ''ws://'' then drop 5 address
      else if length address > 6 \<and> take 6 address = ''wss://'' then drop 6 address
      else address)"

definition dial_address :: "Config \<Rightarrow> string" where
  "dial_address cfg = (if Protocol cfg = ''tcp'' then tcp_address (URL cfg) else URL cfg)"

text \<open>
  The loop is a state machine driven by what its environment does. \<open>LoopTop\<close> is the head
  of the outer \<open>for\<close>, \<open>InSession\<close> the inner loop that runs while the transport is
  connected, \<open>Returned\<close> the end of the function.

  The events: at the head of the outer loop the context is done (\<open>CtxDone\<close>) or \<open>Connect\<close>
  is called and fails (\<open>ConnectFailed\<close>) or succeeds (\<open>ConnectOk\<close>); in the inner loop
  \<open>IsConnected\<close> is false (\<open>ConnectionLost\<close>) or the context is done or the 30-second timer
  fires (\<open>HeartbeatTimer\<close>). An event that cannot happen where the loop stands leaves the
  state as it is.

  The actions are the calls the loop makes, in order.
\<close>

datatype location = LoopTop | InSession | Returned

datatype event = CtxDone | ConnectFailed | ConnectOk | HeartbeatTimer | ConnectionLost

datatype action = ConnectCall string | Sleep Duration | SendHeartbeat | DisconnectCall

record supervisor =
  reconnectAttempts :: int
  maxReconnectAttempts :: int
  loc :: location
  actions :: "action list"

definition heartbeat_timer :: Duration where
  "heartbeat_timer = 30 * Second"

text \<open>The state at the first turn of the loop; with no URL the function returns at once.\<close>

definition supervisor_init :: "Config \<Rightarrow> supervisor" where
  "supervisor_init cfg =
     \<lparr>reconnectAttempts = 0,
      maxReconnectAttempts =
        (if MaxAttempts (reconnect cfg) = 0 then 5 else MaxAttempts (reconnect cfg)),
      loc = (if URL cfg = [] then Returned else LoopTop),
      actions = []\<rparr>"

definition on_connect_failed :: "Config \<Rightarrow> supervisor \<Rightarrow> supervisor" where
  "on_connect_failed cfg s =
     (let s1 = s\<lparr>actions := actions s @ [ConnectCall (dial_address cfg)]\<rparr>
      in if \<not> Enabled (reconnect cfg) then s1\<lparr>loc := Returned\<rparr>
         else
           (let s2 = s1\<lparr>reconnectAttempts := reconnectAttempts s1 + 1\<rparr>
            in if reconnectAttempts s2 \<ge> maxReconnectAttempts s2 then s2\<lparr>loc := Returned\<rparr>
               else s2\<lparr>actions := actions s2
                           @ [Sleep (backoff_delay (reconnect cfg) (reconnectAttempts s2))]\<rparr>))"

definition on_connect_ok :: "Config \<Rightarrow> supervisor \<Rightarrow> supervisor" where
  "on_connect_ok cfg s =
     s\<lparr>actions := actions s @ [ConnectCall (dial_address cfg)],
       reconnectAttempts := 0, loc := InSession\<rparr>"

definition on_connection_lost :: "Config \<Rightarrow> supervisor \<Rightarrow> supervisor" where
  "on_connection_lost cfg s =
     (if Enabled (reconnect cfg)
      then s\<lparr>actions := actions s @ [Sleep (InitialDelay (reconnect cfg))], loc := LoopTop\<rparr>
      else s\<lparr>loc := Returned\<rparr>)"

fun supervisor_step :: "Config \<Rightarrow> supervisor \<Rightarrow> event \<Rightarrow> supervisor" where
  "supervisor_step cfg s ev =
     (case loc s of
        Returned \<Rightarrow> s
      | LoopTop \<Rightarrow>
          (case ev of
             CtxDone \<Rightarrow> s\<lparr>loc := Returned\<rparr>
           | ConnectFailed \<Rightarrow> on_connect_failed cfg s
           | ConnectOk \<Rightarrow> on_connect_ok cfg s
           | _ \<Rightarrow> s)
      | InSession \<Rightarrow>
          (case ev of
             ConnectionLost \<Rightarrow> on_connection_lost cfg s
           | CtxDone \<Rightarrow> s\<lparr>actions := actions s @ [DisconnectCall], loc := Returned\<rparr>
           | HeartbeatTimer \<Rightarrow> s\<lparr>actions := actions s @ [SendHeartbeat]\<rparr>
           | _ \<Rightarrow> s))"

definition startConnectionClient :: "Config \<Rightarrow> event list \<Rightarrow> supervisor" where
  "startConnectionClient cfg evs = foldl (supervisor_step cfg) (supervisor_init cfg) evs"

text \<open>What a run did: the connect attempts it made and the delays it slept, in order.\<close>

fun connect_attempts :: "action list \<Rightarrow> nat" where
  "connect_attempts [] = 0"
| "connect_attempts (ConnectCall a # as) = Suc (connect_attempts as)"
| "connect_attempts (_ # as) = connect_attempts as"

fun slept :: "action list \<Rightarrow> Duration list" where
  "slept [] = []"
| "slept (Sleep d # as) = d # slept as"
| "slept (_ # as) = slept as"

text \<open>
  The actions of \<open>j\<close> failed connects in a row, none of them the last one allowed: each
  is a connect call followed by the back-off sleep.
\<close>

definition fail_actions :: "Config \<Rightarrow> nat \<Rightarrow> action list" where
  "fail_actions cfg j =
     concat (map (\<lambda>i. [ConnectCall (dial_address cfg),
                        Sleep (backoff_delay (reconnect cfg) (int i + 1))]) [0..<j])"

text \<open>What holds of the counter wherever the loop stands.\<close>

definition counter_inv :: "supervisor \<Rightarrow> bool" where
  "counter_inv s =
     (0 \<le> reconnectAttempts s \<and> (if loc s = InSession then reconnectAttempts s = 0 else True))"

section \<open>Concrete inputs\<close>

text \<open>
  Scenario A of the specification: three attempts, one second at first, doubled, at most
  ten seconds.
\<close>

definition scenario_A :: Config where
  "scenario_A =
     \<lparr>ws_Enabled = True, URL = ''ws://dispatcher:8080/ws'', ClientID = ''edge-1'',
      Protocol = ''tcp'',
      reconnect = \<lparr>Enabled = True, MaxAttempts = 3, InitialDelay = Second,
                   MaxDelay = 10 * Second, BackoffMultiplier = 2\<rparr>,
      QuickCommands = [],
      enabledCommands = \<lparr>APICall = True, HTTPRequest = True, SSHCommand = True\<rparr>\<rparr>"

text \<open>A policy whose \<open>max_attempts\<close> is 0.\<close>

definition zero_attempts_cfg :: Config where
  "zero_attempts_cfg =
     \<lparr>ws_Enabled = True, URL = ''ws://dispatcher:8080/ws'', ClientID = ''edge-1'',
      Protocol = ''websocket'',
      reconnect = \<lparr>Enabled = True, MaxAttempts = 0, InitialDelay = Second,
                   MaxDelay = 10 * Second, BackoffMultiplier = 2\<rparr>,
      QuickCommands = [],
      enabledCommands = \<lparr>APICall = True, HTTPRequest = True, SSHCommand = True\<rparr>\<rparr>"

text \<open>Executors that cannot reach anything, and executors that accept every call.\<close>

definition unreachable_executors :: executors where
  "unreachable_executors =
     \<lparr>ExecuteAPICall = (\<lambda>url method headers body. Inl ''dispatcher unreachable''),
      ExecuteHTTPRequest = (\<lambda>url method headers body. Inl ''dispatcher unreachable''),
      ExecuteCommand = (\<lambda>cmd. Inl ''not started''),
      ParseDuration = (\<lambda>s. None)\<rparr>"

definition accepting_executors :: executors where
  "accepting_executors =
     \<lparr>ExecuteAPICall = (\<lambda>url method headers body.
         Inr \<lparr>api_Success = True, api_Data = JStr url, api_Error = []\<rparr>),
      ExecuteHTTPRequest = (\<lambda>url method headers body.
         Inr \<lparr>api_Success = True, api_Data = JStr url, api_Error = []\<rparr>),
      ExecuteCommand = (\<lambda>cmd.
         Inr \<lparr>lr_ExitCode = 0, lr_Stdout = lc_Command cmd, lr_Stderr = [], lr_Duration = ''1ms''\<rparr>),
      ParseDuration = (\<lambda>s. None)\<rparr>"

text \<open>
  A configuration with \<open>api_call\<close> disabled and a quick command \<open>restart\<close> of that type;
  the quick command, and the same call sent directly.
\<close>

definition quick_cfg :: Config where
  "quick_cfg =
     \<lparr>ws_Enabled = True, URL = ''ws://dispatcher:8080/ws'', ClientID = ''edge-1'',
      Protocol = ''tcp'',
      reconnect = \<lparr>Enabled = True, MaxAttempts = 3, InitialDelay = Second,
                   MaxDelay = 10 * Second, BackoffMultiplier = 2\<rparr>,
      QuickCommands =
        [(''restart'', JObj [(''type'', JStr ''api_call''),
                             (''payload'', JObj [(''url'', JStr ''/restart'')])])],
      enabledCommands = \<lparr>APICall = False, HTTPRequest = True, SSHCommand = True\<rparr>\<rparr>"

definition quick_cmd :: Command where
  "quick_cmd =
     \<lparr>cmd_Type = ''quick_command'', cmd_Payload = JObj [(''command'', JStr ''restart'')],
      cmd_ID = ''9''\<rparr>"

definition direct_cmd :: Command where
  "direct_cmd =
     \<lparr>cmd_Type = ''api_call'', cmd_Payload = JObj [(''url'', JStr ''/restart'')],
      cmd_ID = ''9''\<rparr>"

text \<open>
  The client after a call of \<open>Connect\<close>: on an error it is the client as it was.
\<close>

definition after_connect :: "connect_error + 'c \<Rightarrow> 'c \<Rightarrow> 'c" where
  "after_connect r c = (case r of Inl e \<Rightarrow> c | Inr c' \<Rightarrow> c')"

text \<open>
  Clients whose byte strings are the messages themselves (\<open>Some\<close> for \<open>json.Marshal\<close>
  and \<open>json.Unmarshal\<close>), with the handlers of the dispatcher injected, and each of them
  connected, its identification already written by the writer.
\<close>

definition tcp_fresh :: "tcp_message TCPClient" where
  "tcp_fresh = tcp_SetCommandHandler (handleTCPCommand scenario_A unreachable_executors) NewTCPClient"

definition ws_fresh :: "WSMessage WSClient" where
  "ws_fresh = ws_SetCommandHandler (handleWebSocketCommand scenario_A unreachable_executors) NewWSClient"

definition tcp_session :: "tcp_message TCPClient" where
  "tcp_session =
     fst (tcp_writePump_step True
            (after_connect (tcp_Connect Some 100 True ''edge-1'' tcp_fresh) tcp_fresh))"

definition ws_session :: "WSMessage WSClient" where
  "ws_session =
     fst (ws_writePump_step True
            (after_connect (ws_Connect Some 100 True ''edge-1'' ws_fresh) ws_fresh))"

text \<open>A \<open>custom\<close> command with a given identifier, and the response to it as marshalled.\<close>

definition tcp_custom :: "string \<Rightarrow> tcp_message" where
  "tcp_custom i = [(''type'', JStr ''custom''), (''payload'', JStr ''hello''), (''id'', JStr i)]"

definition ws_custom :: "string \<Rightarrow> WSMessage" where
  "ws_custom i = \<lparr>ws_Type = ''custom'', ws_Payload = JStr ''hello'', ws_ID = i\<rparr>"

definition custom_response :: "string \<Rightarrow> json" where
  "custom_response i =
     JObj [(''id'', JStr i), (''success'', JBool True),
           (''data'', JObj [(''message'', JStr ''Custom command executed''),
                            (''received_payload'', JStr ''hello'')])]"

text \<open>
  A session that ends and is followed by a reconnect. Two commands are answered while
  the peer is slow; the write of the first answer fails, so the writer returns with the
  second answer still queued; the reader sees the connection end and disconnects; the
  supervisor connects again and the new writer takes its first turn.
\<close>

definition tcp_reconnected :: "tcp_message TCPClient" where
  "tcp_reconnected =
     (let c1 = tcp_handleMessage Some Some 101 (tcp_custom ''41'') tcp_session;
          c2 = tcp_handleMessage Some Some 102 (tcp_custom ''42'') c1;
          c3 = fst (tcp_writePump_step False c2);
          c4 = tcp_Disconnect c3;
          c5 = after_connect (tcp_Connect Some 200 True ''edge-1'' c4) c4
      in fst (tcp_writePump_step True c5))"

definition ws_reconnected :: "WSMessage WSClient" where
  "ws_reconnected =
     (let c1 = ws_handleMessage Some Some 101 (ws_custom ''41'') ws_session;
          c2 = ws_handleMessage Some Some 102 (ws_custom ''42'') c1;
          c3 = fst (ws_writePump_step False c2);
          c4 = ws_Disconnect True c3;
          c5 = after_connect (ws_Connect Some 200 True ''edge-1'' c4) c4
      in fst (ws_writePump_step True c5))"

text \<open>A ping with the correlation identifier 7, for each transport.\<close>

definition tcp_ping_7 :: tcp_message where
  "tcp_ping_7 = [(''type'', JStr ''ping''), (''id'', JStr ''7'')]"

definition ws_ping_7 :: WSMessage where
  "ws_ping_7 = \<lparr>ws_Type = ''ping'', ws_Payload = JNull, ws_ID = ''7''\<rparr>"





section \<open>Properties of command processing\<close>

lemma handleAPICall_ID: "resp_ID (fst (handleAPICall ex c)) = cmd_ID c"
  by (simp add: handleAPICall_def failure_def Let_def split: json.split sum.split)

lemma handleHTTPRequest_ID: "resp_ID (fst (handleHTTPRequest ex c)) = cmd_ID c"
  by (simp add: handleHTTPRequest_def failure_def Let_def split: json.split sum.split)

lemma handleSSHCommand_ID: "resp_ID (fst (handleSSHCommand ex c)) = cmd_ID c"
  by (simp add: handleSSHCommand_def failure_def Let_def split: json.split sum.split)

lemma handleCustom_ID: "resp_ID (fst (handleCustom c)) = cmd_ID c"
  by (simp add: handleCustom_def)

lemma runQuickCommand_ID: "resp_ID (fst (runQuickCommand ex c t p)) = cmd_ID c"
  by (simp add: runQuickCommand_def Let_def failure_def
      handleAPICall_ID handleHTTPRequest_ID handleSSHCommand_ID)

lemma handleQuickCommand_ID: "resp_ID (fst (handleQuickCommand cfg ex c)) = cmd_ID c"
  by (simp add: handleQuickCommand_def failure_def runQuickCommand_ID
      split: json.split option.split)

text \<open>
  C9. Whatever the configuration, the executors and the command, and whichever branch is
  taken (a handler that runs, a disabled type, a malformed payload, an unknown type, a
  quick command), the response of \<open>processCommand\<close> carries the identifier of the command.
\<close>

theorem processCommand_keeps_ID:
  "resp_ID (fst (processCommand cfg ex command)) = cmd_ID command"
  by (simp add: processCommand_def failure_def handleAPICall_ID handleHTTPRequest_ID
      handleSSHCommand_ID handleCustom_ID handleQuickCommand_ID)

text \<open>
  A command of a disabled type that arrives under its own type is refused before any
  executor runs, with the fixed message, whatever its payload.
\<close>

lemma processCommand_disabled_direct:
  "cmd_Type command = ''api_call'' \<and> \<not> APICall (enabledCommands cfg)
   \<or> cmd_Type command = ''http_request'' \<and> \<not> HTTPRequest (enabledCommands cfg)
   \<or> cmd_Type command = ''ssh_command'' \<and> \<not> SSHCommand (enabledCommands cfg)
   \<Longrightarrow> processCommand cfg ex command
       = (failure (cmd_ID command) (disabled_message (cmd_Type command)), [])"
  by (auto simp: processCommand_def disabled_message_def)

text \<open>
  C4. The enable flags are not read on every path. With \<open>api_call\<close> disabled, the quick command
  \<open>restart\<close>, which resolves to an \<open>api_call\<close>, reaches the executor and returns the
  executor's answer; the same call sent directly is refused with
  \<open>api_call commands are disabled\<close>. \<open>handleQuickCommand\<close> calls the handlers without
  reading the enable flags that \<open>processCommand\<close> reads.
\<close>

theorem quick_command_runs_disabled_type:
  "processCommand quick_cfg accepting_executors quick_cmd
     = (\<lparr>resp_ID = ''9'', resp_Success = True, resp_Data = JStr ''/restart'', resp_Error = []\<rparr>,
        [APICallExec ''/restart'' ''POST'' None JNull])
   \<and> processCommand quick_cfg accepting_executors direct_cmd
     = (\<lparr>resp_ID = ''9'', resp_Success = False, resp_Data = JNull,
         resp_Error = ''api_call commands are disabled''\<rparr>, [])"
  by (simp add: processCommand_def quick_cfg_def quick_cmd_def direct_cmd_def
      accepting_executors_def handleQuickCommand_def runQuickCommand_def handleAPICall_def
      str_field_def string_map_field_def body_field_def failure_def Let_def)

section \<open>Properties of the supervisor loop\<close>

declare backoff_loop.simps [simp del]

lemma backoff_loop_power:
  "i \<le> n \<Longrightarrow> backoff_loop i n m d = d * m ^ nat (n - i)"
proof (induction i n m d rule: backoff_loop.induct)
  case (1 i n m d)
  show ?case
  proof (cases "i < n")
    case True
    then have "nat (n - i) = Suc (nat (n - (i + 1)))" by simp
    with True 1 show ?thesis
      by (subst backoff_loop.simps) (simp add: mult.assoc)
  next
    case False
    with 1 have "i = n" by simp
    then show ?thesis by (subst backoff_loop.simps) simp
  qed
qed

lemma backoff_loop_from_one: "backoff_loop 1 (int j + 1) m d = d * m ^ j"
proof -
  have "(1::int) \<le> int j + 1" by simp
  from backoff_loop_power [OF this, of m d] show ?thesis by simp
qed

lemma word_times_power_of_int:
  "(d::64 word) * word_of_int k ^ j = word_of_int (sint d * k ^ j)"
proof -
  have "word_of_int (sint d * k ^ j) = (word_of_int (sint d) :: 64 word) * word_of_int (k ^ j)"
    by (rule wi_hom_mult [symmetric])
  also have "word_of_int (k ^ j) = (word_of_int k :: 64 word) ^ j"
    by (rule word_of_int_power_hom [symmetric])
  finally show ?thesis by simp
qed

lemma Duration_of_float64_whole: "Duration_of_float64 (of_int k) = word_of_int k"
  by (simp add: Duration_of_float64_def)

text \<open>
  The delay before retry \<open>j\<close> (counted from 0) for a whole multiplier \<open>k\<close>, when the
  product fits 64 bits.
\<close>

lemma backoff_delay_formula:
  assumes "BackoffMultiplier r = of_int k"
    and "- (2 ^ 63) \<le> sint (InitialDelay r) * k ^ j"
    and "sint (InitialDelay r) * k ^ j < 2 ^ 63"
  shows "sint (backoff_delay r (int j + 1))
    = min (sint (InitialDelay r) * k ^ j) (sint (MaxDelay r))"
proof -
  have loop: "backoff_loop 1 (int j + 1) (word_of_int k) (InitialDelay r)
      = word_of_int (sint (InitialDelay r) * k ^ j)"
    by (simp only: backoff_loop_from_one word_times_power_of_int)
  have "sint (word_of_int (sint (InitialDelay r) * k ^ j) :: 64 word)
      = sint (InitialDelay r) * k ^ j"
    using assms(2,3) by (simp only: sint_sbintrunc') (simp add: signed_take_bit_int_eq_self)
  then show ?thesis
    using assms(1)
    by (simp add: backoff_delay_def Duration_of_float64_whole loop Let_def word_sless_alt min_def
        del: of_int_mult of_int_power)
qed

text \<open>
  A multiplier with a fraction loses it in the conversion: with 1.5 the delay before the
  second retry is the initial delay, not one and a half times it.
\<close>

lemma fractional_multiplier_truncated:
  "backoff_delay \<lparr>Enabled = True, MaxAttempts = 5, InitialDelay = Second,
                   MaxDelay = 10 * Second, BackoffMultiplier = 3 / 2\<rparr> 2 = Second"
proof -
  have "(3::rat) / 2 = of_int 3 / of_int 2" by simp
  then have "\<lfloor>(3::rat) / 2\<rfloor> = 3 div 2" by (simp only: floor_divide_of_int_eq)
  then have "\<lfloor>(3::rat) / 2\<rfloor> = 1" by simp
  then have "Duration_of_float64 (3 / 2) = 1"
    unfolding Duration_of_float64_def by simp
  then show ?thesis
    using backoff_loop_from_one [of 1 1 Second]
    by (simp add: backoff_delay_def Let_def Second_def word_sless_alt)
qed

lemma returned_absorbs:
  "loc s = Returned \<Longrightarrow> foldl (supervisor_step cfg) s evs = s"
  by (induction evs) auto

lemma run_snoc:
  "startConnectionClient cfg (evs @ [ev])
     = supervisor_step cfg (startConnectionClient cfg evs) ev"
  by (simp add: startConnectionClient_def)

text \<open>While the limit is not reached, every failed connect is followed by a sleep and a retry.\<close>

lemma fail_prefix:
  assumes "URL cfg \<noteq> []" "Enabled (reconnect cfg)"
  shows "j = 0 \<or> int j < maxReconnectAttempts (supervisor_init cfg) \<Longrightarrow>
    startConnectionClient cfg (replicate j ConnectFailed) =
      \<lparr>reconnectAttempts = int j,
       maxReconnectAttempts = maxReconnectAttempts (supervisor_init cfg),
       loc = LoopTop, actions = fail_actions cfg j\<rparr>"
proof (induction j)
  case 0
  with assms show ?case
    by (simp add: startConnectionClient_def supervisor_init_def fail_actions_def)
next
  case (Suc j)
  then have lt: "int (Suc j) < maxReconnectAttempts (supervisor_init cfg)" by simp
  then have "j = 0 \<or> int j < maxReconnectAttempts (supervisor_init cfg)" by simp
  note ih = Suc.IH [OF this]
  have snoc: "replicate (Suc j) ConnectFailed = replicate j ConnectFailed @ [ConnectFailed]"
    by (simp add: replicate_append_same)
  have "startConnectionClient cfg (replicate (Suc j) ConnectFailed)
      = supervisor_step cfg (startConnectionClient cfg (replicate j ConnectFailed)) ConnectFailed"
    unfolding snoc by (rule run_snoc)
  also have "\<dots> = \<lparr>reconnectAttempts = int (Suc j),
       maxReconnectAttempts = maxReconnectAttempts (supervisor_init cfg),
       loc = LoopTop, actions = fail_actions cfg (Suc j)\<rparr>"
    unfolding ih using lt assms(2)
    by (simp add: on_connect_failed_def Let_def fail_actions_def add.commute)
  finally show ?case .
qed

text \<open>
  A run of failed connects, long enough, ends in \<open>Returned\<close> at the failure that brings
  the counter to the limit; the first failure is counted whatever the limit is.
\<close>

lemma fail_final:
  assumes "URL cfg \<noteq> []" "Enabled (reconnect cfg)"
    and "L = nat (max 1 (maxReconnectAttempts (supervisor_init cfg)))" and "L \<le> n"
  shows "startConnectionClient cfg (replicate n ConnectFailed) =
      \<lparr>reconnectAttempts = int L,
       maxReconnectAttempts = maxReconnectAttempts (supervisor_init cfg),
       loc = Returned, actions = fail_actions cfg (L - 1) @ [ConnectCall (dial_address cfg)]\<rparr>"
proof -
  let ?M = "maxReconnectAttempts (supervisor_init cfg)"
  have L1: "1 \<le> L" using assms(3) by simp
  have pre: "L - 1 = 0 \<or> int (L - 1) < ?M" using assms(3) by auto
  have ge: "int L \<ge> ?M" using assms(3) by auto
  have "n = (L - 1) + (1 + (n - L))" using L1 assms(4) by arith
  then have "replicate n ConnectFailed
      = replicate ((L - 1) + (1 + (n - L))) ConnectFailed" by simp
  then have n: "replicate n ConnectFailed
      = replicate (L - 1) ConnectFailed @ [ConnectFailed] @ replicate (n - L) ConnectFailed"
    by (simp only: replicate_add) simp
  have s1: "supervisor_step cfg (startConnectionClient cfg (replicate (L - 1) ConnectFailed)) ConnectFailed
      = \<lparr>reconnectAttempts = int L, maxReconnectAttempts = ?M,
       loc = Returned, actions = fail_actions cfg (L - 1) @ [ConnectCall (dial_address cfg)]\<rparr>"
    using fail_prefix [OF assms(1,2) pre] assms(2) ge L1
    by (simp add: on_connect_failed_def Let_def)
  show ?thesis
    unfolding startConnectionClient_def n foldl_append
    using s1 unfolding startConnectionClient_def
    by (simp add: returned_absorbs)
qed

lemma connect_attempts_append:
  "connect_attempts (xs @ ys) = connect_attempts xs + connect_attempts ys"
  by (induction xs rule: connect_attempts.induct) auto

lemma slept_append: "slept (xs @ ys) = slept xs @ slept ys"
  by (induction xs rule: slept.induct) auto

lemma connect_attempts_fail_actions: "connect_attempts (fail_actions cfg j) = j"
  by (induction j) (simp_all add: fail_actions_def connect_attempts_append)

lemma slept_fail_actions:
  "slept (fail_actions cfg j) = map (\<lambda>i. backoff_delay (reconnect cfg) (int i + 1)) [0..<j]"
  by (induction j) (simp_all add: fail_actions_def slept_append)

lemma step_keeps_max:
  "maxReconnectAttempts (supervisor_step cfg s ev) = maxReconnectAttempts s"
  by (simp add: on_connect_failed_def on_connect_ok_def on_connection_lost_def Let_def
      split: location.split event.split)

lemma run_keeps_max:
  "maxReconnectAttempts (startConnectionClient cfg evs) = maxReconnectAttempts (supervisor_init cfg)"
proof (induction evs rule: rev_induct)
  case Nil
  show ?case by (simp add: startConnectionClient_def)
next
  case (snoc ev evs)
  then show ?case by (simp only: run_snoc step_keeps_max)
qed

lemma step_counter_inv: "counter_inv s \<Longrightarrow> counter_inv (supervisor_step cfg s ev)"
  by (cases "loc s"; cases ev)
    (auto simp: counter_inv_def on_connect_failed_def on_connect_ok_def on_connection_lost_def Let_def)

lemma run_counter_inv: "counter_inv (startConnectionClient cfg evs)"
proof (induction evs rule: rev_induct)
  case Nil
  show ?case by (simp add: startConnectionClient_def supervisor_init_def counter_inv_def)
next
  case (snoc ev evs)
  then show ?case by (simp only: run_snoc step_counter_inv)
qed

text \<open>
  C1, as the claim states it: no more than \<open>max_attempts\<close> connect attempts. With
  \<open>max_attempts = 0\<close> and every connect failing, the loop makes five attempts.
\<close>

theorem counterexample_more_attempts_than_max:
  "\<not> int (connect_attempts (actions (startConnectionClient zero_attempts_cfg
         (replicate 5 ConnectFailed)))) \<le> MaxAttempts (reconnect zero_attempts_cfg)"
proof -
  have a: "URL zero_attempts_cfg \<noteq> []" by (simp add: zero_attempts_cfg_def)
  have b: "Enabled (reconnect zero_attempts_cfg)" by (simp add: zero_attempts_cfg_def)
  have d: "(5::nat) = nat (max 1 (maxReconnectAttempts (supervisor_init zero_attempts_cfg)))"
    by (simp add: zero_attempts_cfg_def supervisor_init_def)
  have "connect_attempts (actions (startConnectionClient zero_attempts_cfg
         (replicate 5 ConnectFailed))) = 5"
    by (simp add: fail_final [OF a b d order_refl] connect_attempts_append
        connect_attempts_fail_actions)
  then show ?thesis by (simp add: zero_attempts_cfg_def)
qed

text \<open>
  C1, amended. Reconnection is enabled, a URL is configured and every connect fails. Let
  \<open>L\<close> be the limit the loop uses (\<open>max_attempts\<close>, or 5 when that is 0), and at least 1.
  Whatever the multiplier and the delays of the policy, a run of \<open>n \<ge> L\<close> failures returns
  after exactly \<open>L\<close> connect attempts and \<open>L - 1\<close> sleeps. The delay slept before retry
  \<open>j\<close> (counted from 0) is \<open>min (initial_delay * k ^ j) max_delay\<close>, in nanoseconds,
  whenever the multiplier is a whole number \<open>k\<close> and the product \<open>initial_delay * k ^ j\<close>
  is within the 64-bit range.
\<close>

theorem backoff_schedule:
  assumes "URL cfg \<noteq> []" and "Enabled (reconnect cfg)"
    and "L = nat (max 1 (maxReconnectAttempts (supervisor_init cfg)))"
    and "L \<le> n"
  shows "loc (startConnectionClient cfg (replicate n ConnectFailed)) = Returned
    \<and> connect_attempts (actions (startConnectionClient cfg (replicate n ConnectFailed))) = L
    \<and> length (slept (actions (startConnectionClient cfg (replicate n ConnectFailed)))) = L - 1
    \<and> (\<forall>j k. j < L - 1 \<and> BackoffMultiplier (reconnect cfg) = of_int k
              \<and> - (2 ^ 63) \<le> k \<and> k < 2 ^ 63
              \<and> - (2 ^ 63) \<le> sint (InitialDelay (reconnect cfg)) * k ^ j
              \<and> sint (InitialDelay (reconnect cfg)) * k ^ j < 2 ^ 63
          \<longrightarrow> sint (slept (actions (startConnectionClient cfg (replicate n ConnectFailed))) ! j)
                = min (sint (InitialDelay (reconnect cfg)) * k ^ j)
                      (sint (MaxDelay (reconnect cfg))))"
proof -
  have L1: "1 \<le> L" using assms(3) by simp
  note fin = fail_final [OF assms]
  have sl: "slept (actions (startConnectionClient cfg (replicate n ConnectFailed)))
      = map (\<lambda>i. backoff_delay (reconnect cfg) (int i + 1)) [0..<L - 1]"
    by (simp add: fin slept_append slept_fail_actions)
  have at: "connect_attempts (actions (startConnectionClient cfg (replicate n ConnectFailed))) = L"
    using L1 by (simp add: fin connect_attempts_append connect_attempts_fail_actions)
  have del: "sint (slept (actions (startConnectionClient cfg (replicate n ConnectFailed))) ! j)
                = min (sint (InitialDelay (reconnect cfg)) * k ^ j)
                      (sint (MaxDelay (reconnect cfg)))"
    if "j < L - 1" and "BackoffMultiplier (reconnect cfg) = of_int k"
      and "- (2 ^ 63) \<le> sint (InitialDelay (reconnect cfg)) * k ^ j"
      and "sint (InitialDelay (reconnect cfg)) * k ^ j < 2 ^ 63" for j k
  proof -
    have "slept (actions (startConnectionClient cfg (replicate n ConnectFailed))) ! j
        = backoff_delay (reconnect cfg) (int j + 1)"
      unfolding sl using that(1) by simp
    then show ?thesis
      using that(2,3,4) by (simp only: backoff_delay_formula)
  qed
  have "loc (startConnectionClient cfg (replicate n ConnectFailed)) = Returned"
    by (simp add: fin)
  moreover have "length (slept (actions (startConnectionClient cfg (replicate n ConnectFailed))))
      = L - 1"
    by (simp add: sl)
  ultimately show ?thesis
    using at del by blast
qed

text \<open>
  Scenario A: three failed attempts, the delays one second and two seconds, no fourth
  attempt.
\<close>

theorem backoff_schedule_witness:
  "loc (startConnectionClient scenario_A (replicate 3 ConnectFailed)) = Returned
   \<and> connect_attempts (actions (startConnectionClient scenario_A (replicate 3 ConnectFailed))) = 3
   \<and> length (slept (actions (startConnectionClient scenario_A (replicate 3 ConnectFailed)))) = 2
   \<and> sint (slept (actions (startConnectionClient scenario_A (replicate 3 ConnectFailed))) ! 0)
       = 1000000000
   \<and> sint (slept (actions (startConnectionClient scenario_A (replicate 3 ConnectFailed))) ! 1)
       = 2000000000"
proof -
  have a: "URL scenario_A \<noteq> []" by (simp add: scenario_A_def)
  have b: "Enabled (reconnect scenario_A)" by (simp add: scenario_A_def)
  have d: "(3::nat) = nat (max 1 (maxReconnectAttempts (supervisor_init scenario_A)))"
    by (simp add: scenario_A_def supervisor_init_def)
  have f: "(3::nat) \<le> 3" by simp
  note main = backoff_schedule [OF a b d f]
  note delays = main [THEN conjunct2, THEN conjunct2, THEN conjunct2]
  have h0: "(0::nat) < 3 - 1 \<and> BackoffMultiplier (reconnect scenario_A) = of_int 2
      \<and> - (2 ^ 63) \<le> (2::int) \<and> (2::int) < 2 ^ 63
      \<and> - (2 ^ 63) \<le> sint (InitialDelay (reconnect scenario_A)) * 2 ^ 0
      \<and> sint (InitialDelay (reconnect scenario_A)) * 2 ^ 0 < 2 ^ 63"
    by (simp add: scenario_A_def Second_def)
  have h1: "(1::nat) < 3 - 1 \<and> BackoffMultiplier (reconnect scenario_A) = of_int 2
      \<and> - (2 ^ 63) \<le> (2::int) \<and> (2::int) < 2 ^ 63
      \<and> - (2 ^ 63) \<le> sint (InitialDelay (reconnect scenario_A)) * 2 ^ 1
      \<and> sint (InitialDelay (reconnect scenario_A)) * 2 ^ 1 < 2 ^ 63"
    by (simp add: scenario_A_def Second_def)
  have d0: "sint (slept (actions (startConnectionClient scenario_A (replicate 3 ConnectFailed))) ! 0)
      = min (sint (InitialDelay (reconnect scenario_A)) * 2 ^ 0)
            (sint (MaxDelay (reconnect scenario_A)))"
    using delays [THEN spec, THEN spec, THEN mp, OF h0] .
  have d1: "sint (slept (actions (startConnectionClient scenario_A (replicate 3 ConnectFailed))) ! 1)
      = min (sint (InitialDelay (reconnect scenario_A)) * 2 ^ 1)
            (sint (MaxDelay (reconnect scenario_A)))"
    using delays [THEN spec, THEN spec, THEN mp, OF h1] .
  have v0: "min (sint (InitialDelay (reconnect scenario_A)) * 2 ^ 0)
      (sint (MaxDelay (reconnect scenario_A))) = 1000000000"
    by (simp add: scenario_A_def Second_def)
  have v1: "min (sint (InitialDelay (reconnect scenario_A)) * 2 ^ 1)
      (sint (MaxDelay (reconnect scenario_A))) = 2000000000"
    by (simp add: scenario_A_def Second_def)
  from main d0 d1 show ?thesis
    unfolding v0 v1 by simp
qed

text \<open>
  C10. When the configured \<open>max_attempts\<close> is 0 the loop works with the limit 5, in every
  run: with reconnection enabled and every connect failing it is still retrying after four
  failures and returns at the fifth, having made five attempts.
\<close>

theorem default_max_attempts:
  assumes "MaxAttempts (reconnect cfg) = 0"
    and "URL cfg \<noteq> []" and "Enabled (reconnect cfg)" and "5 \<le> n"
  shows "maxReconnectAttempts (startConnectionClient cfg evs) = 5
    \<and> loc (startConnectionClient cfg (replicate 4 ConnectFailed)) = LoopTop
    \<and> loc (startConnectionClient cfg (replicate n ConnectFailed)) = Returned
    \<and> connect_attempts (actions (startConnectionClient cfg (replicate n ConnectFailed))) = 5"
proof -
  have m: "maxReconnectAttempts (supervisor_init cfg) = 5"
    using assms(1) by (simp add: supervisor_init_def)
  have d: "(5::nat) = nat (max 1 (maxReconnectAttempts (supervisor_init cfg)))"
    by (simp add: m)
  have p: "(4::nat) = 0 \<or> int 4 < maxReconnectAttempts (supervisor_init cfg)"
    by (simp add: m)
  show ?thesis
    by (simp add: run_keeps_max m fail_prefix [OF assms(2,3) p]
        fail_final [OF assms(2,3) d assms(4)] connect_attempts_append
        connect_attempts_fail_actions)
qed

text \<open>The policy with \<open>max_attempts = 0\<close>: the limit is 5 in a run that connects as well.\<close>

theorem default_max_attempts_witness:
  "maxReconnectAttempts (startConnectionClient zero_attempts_cfg [ConnectOk, ConnectionLost]) = 5
    \<and> loc (startConnectionClient zero_attempts_cfg (replicate 4 ConnectFailed)) = LoopTop
    \<and> loc (startConnectionClient zero_attempts_cfg (replicate 5 ConnectFailed)) = Returned
    \<and> connect_attempts (actions (startConnectionClient zero_attempts_cfg
         (replicate 5 ConnectFailed))) = 5"
proof -
  have a: "MaxAttempts (reconnect zero_attempts_cfg) = 0" by (simp add: zero_attempts_cfg_def)
  have b: "URL zero_attempts_cfg \<noteq> []" by (simp add: zero_attempts_cfg_def)
  have c: "Enabled (reconnect zero_attempts_cfg)" by (simp add: zero_attempts_cfg_def)
  show ?thesis
    by (rule default_max_attempts [OF a b c order_refl])
qed

text \<open>
  C6, as the claim states it: the counter is incremented on every unexpected disconnect.
  After a successful connect and the loss of the connection the counter is what it was, 0.
\<close>

theorem counterexample_disconnect_not_counted:
  "\<not> reconnectAttempts (startConnectionClient scenario_A [ConnectOk, ConnectionLost])
       = reconnectAttempts (startConnectionClient scenario_A [ConnectOk]) + 1"
  by (simp add: startConnectionClient_def supervisor_init_def scenario_A_def
      on_connect_ok_def on_connection_lost_def)

text \<open>
  C6, amended. In every execution, at every step \<open>ev\<close> after the events \<open>evs\<close>: while the
  transport is connected the counter is 0; the counter goes back to 0 from another value
  only by a successful connect; a successful connect sets it to 0; a failed connect with
  reconnection enabled adds one; the loss of the connection leaves it as it is; and nothing
  but a connect attempt changes it.
\<close>

theorem reconnect_counter_changes:
  "(loc (startConnectionClient cfg evs) = InSession
      \<longrightarrow> reconnectAttempts (startConnectionClient cfg evs) = 0)
   \<and> (reconnectAttempts (startConnectionClient cfg (evs @ [ev])) = 0
        \<and> reconnectAttempts (startConnectionClient cfg evs) \<noteq> 0
      \<longrightarrow> loc (startConnectionClient cfg evs) = LoopTop \<and> ev = ConnectOk)
   \<and> (loc (startConnectionClient cfg evs) = LoopTop \<and> ev = ConnectOk
      \<longrightarrow> reconnectAttempts (startConnectionClient cfg (evs @ [ev])) = 0
          \<and> loc (startConnectionClient cfg (evs @ [ev])) = InSession)
   \<and> (loc (startConnectionClient cfg evs) = LoopTop \<and> ev = ConnectFailed
        \<and> Enabled (reconnect cfg)
      \<longrightarrow> reconnectAttempts (startConnectionClient cfg (evs @ [ev]))
            = reconnectAttempts (startConnectionClient cfg evs) + 1)
   \<and> (loc (startConnectionClient cfg evs) = InSession \<and> ev = ConnectionLost
      \<longrightarrow> reconnectAttempts (startConnectionClient cfg (evs @ [ev]))
            = reconnectAttempts (startConnectionClient cfg evs))
   \<and> (reconnectAttempts (startConnectionClient cfg (evs @ [ev]))
        \<noteq> reconnectAttempts (startConnectionClient cfg evs)
      \<longrightarrow> loc (startConnectionClient cfg evs) = LoopTop
          \<and> (ev = ConnectOk \<or> ev = ConnectFailed))"
proof -
  define s where "s = startConnectionClient cfg evs"
  have inv: "counter_inv s" unfolding s_def by (rule run_counter_inv)
  have "(loc s = InSession \<longrightarrow> reconnectAttempts s = 0)
   \<and> (reconnectAttempts (supervisor_step cfg s ev) = 0 \<and> reconnectAttempts s \<noteq> 0
      \<longrightarrow> loc s = LoopTop \<and> ev = ConnectOk)
   \<and> (loc s = LoopTop \<and> ev = ConnectOk
      \<longrightarrow> reconnectAttempts (supervisor_step cfg s ev) = 0
          \<and> loc (supervisor_step cfg s ev) = InSession)
   \<and> (loc s = LoopTop \<and> ev = ConnectFailed \<and> Enabled (reconnect cfg)
      \<longrightarrow> reconnectAttempts (supervisor_step cfg s ev) = reconnectAttempts s + 1)
   \<and> (loc s = InSession \<and> ev = ConnectionLost
      \<longrightarrow> reconnectAttempts (supervisor_step cfg s ev) = reconnectAttempts s)
   \<and> (reconnectAttempts (supervisor_step cfg s ev) \<noteq> reconnectAttempts s
      \<longrightarrow> loc s = LoopTop \<and> (ev = ConnectOk \<or> ev = ConnectFailed))"
    using inv
    by (cases "loc s"; cases ev)
      (auto simp: counter_inv_def on_connect_failed_def on_connect_ok_def
        on_connection_lost_def Let_def)
  then show ?thesis
    unfolding run_snoc s_def .
qed

text \<open>
  One failed connect, then a successful one, then the loss of the connection: the counter
  is 1, then 0, then still 0.
\<close>

theorem reconnect_counter_changes_witness:
  "reconnectAttempts (startConnectionClient scenario_A [ConnectFailed]) = 1
   \<and> reconnectAttempts (startConnectionClient scenario_A [ConnectFailed, ConnectOk]) = 0
   \<and> reconnectAttempts (startConnectionClient scenario_A [ConnectFailed, ConnectOk, ConnectionLost]) = 0"
proof -
  have l0: "loc (startConnectionClient scenario_A []) = LoopTop"
    by (simp add: startConnectionClient_def supervisor_init_def scenario_A_def)
  have c0: "reconnectAttempts (startConnectionClient scenario_A []) = 0"
    by (simp add: startConnectionClient_def supervisor_init_def)
  have en: "Enabled (reconnect scenario_A)" by (simp add: scenario_A_def)
  have l1: "loc (startConnectionClient scenario_A [ConnectFailed]) = LoopTop"
    by (simp add: startConnectionClient_def supervisor_init_def scenario_A_def
        on_connect_failed_def Let_def)
  from reconnect_counter_changes [of scenario_A "[]" ConnectFailed] l0 c0 en
  have c1: "reconnectAttempts (startConnectionClient scenario_A [ConnectFailed]) = 1"
    by simp
  from reconnect_counter_changes [of scenario_A "[ConnectFailed]" ConnectOk] l1
  have c2: "reconnectAttempts (startConnectionClient scenario_A [ConnectFailed, ConnectOk]) = 0"
    and l2: "loc (startConnectionClient scenario_A [ConnectFailed, ConnectOk]) = InSession"
    by simp_all
  from reconnect_counter_changes [of scenario_A "[ConnectFailed, ConnectOk]" ConnectionLost] l2 c2
  have c3: "reconnectAttempts (startConnectionClient scenario_A
      [ConnectFailed, ConnectOk, ConnectionLost]) = 0"
    by simp
  from c1 c2 c3 show ?thesis by simp
qed

section \<open>Properties of the transports\<close>

lemmas chan_defs = make_chan_def send_or_after_def chan_receive_def

text \<open>What \<open>SendCommand\<close> returns, without the time.\<close>

lemma tcp_SendCommand_fst:
  "fst (tcp_SendCommand marshal payload c) =
     (if \<not> tcp_IsConnected c then Inl NotConnected
      else case marshal payload of
             None \<Rightarrow> Inl MarshalFailed
           | Some data \<Rightarrow>
               (case send_or_after (tcp_sendChan c) data (5 * Second) of
                  Sent ch \<Rightarrow> Inr (c\<lparr>tcp_sendChan := ch\<rparr>)
                | AfterFired d \<Rightarrow> Inl SendTimeout))"
  by (simp add: tcp_SendCommand_def split: option.split select_send.split)

lemma ws_SendCommand_fst:
  "fst (ws_SendCommand marshal cmdType payload i c) =
     (if \<not> ws_IsConnected c then Inl NotConnected
      else case marshal \<lparr>ws_Type = cmdType, ws_Payload = payload, ws_ID = i\<rparr> of
             None \<Rightarrow> Inl MarshalFailed
           | Some data \<Rightarrow>
               (case send_or_after (wsc_sendChan c) data (5 * Second) of
                  Sent ch \<Rightarrow> Inr (c\<lparr>wsc_sendChan := ch\<rparr>)
                | AfterFired d \<Rightarrow> Inl SendTimeout))"
  by (simp add: ws_SendCommand_def split: option.split select_send.split)



lemma tcp_send_logged_enqueues:
  "tcp_connected c \<Longrightarrow> marshal payload = Some data
   \<Longrightarrow> length (buf (tcp_sendChan c)) < cap (tcp_sendChan c)
   \<Longrightarrow> tcp_send_logged marshal payload c
       = c\<lparr>tcp_sendChan := (tcp_sendChan c)\<lparr>buf := buf (tcp_sendChan c) @ [data]\<rparr>\<rparr>"
  by (simp add: tcp_send_logged_def tcp_SendCommand_fst tcp_IsConnected_def send_or_after_def)

lemma ws_send_logged_enqueues:
  "wsc_connected c \<Longrightarrow> marshal \<lparr>ws_Type = t, ws_Payload = p, ws_ID = i\<rparr> = Some data
   \<Longrightarrow> length (buf (wsc_sendChan c)) < cap (wsc_sendChan c)
   \<Longrightarrow> ws_send_logged marshal t p i c
       = c\<lparr>wsc_sendChan := (wsc_sendChan c)\<lparr>buf := buf (wsc_sendChan c) @ [data]\<rparr>\<rparr>"
  by (simp add: ws_send_logged_def ws_SendCommand_fst ws_IsConnected_def send_or_after_def)

lemma tcp_send_logged_handled: "tcp_handled (tcp_send_logged marshal payload c) = tcp_handled c"
  by (simp add: tcp_send_logged_def tcp_SendCommand_fst send_or_after_def
      split: option.split)

lemma ws_send_logged_handled: "wsc_handled (ws_send_logged marshal t p i c) = wsc_handled c"
  by (simp add: ws_send_logged_def ws_SendCommand_fst send_or_after_def
      split: option.split)

lemma tcp_send_logged_handler:
  "tcp_send_logged marshal payload (c\<lparr>tcp_commandHandler := h\<rparr>)
     = (tcp_send_logged marshal payload c)\<lparr>tcp_commandHandler := h\<rparr>"
  by (simp add: tcp_send_logged_def tcp_SendCommand_fst tcp_IsConnected_def send_or_after_def
      split: option.split)

lemma ws_send_logged_handler:
  "ws_send_logged marshal t p i (c\<lparr>wsc_commandHandler := h\<rparr>)
     = (ws_send_logged marshal t p i c)\<lparr>wsc_commandHandler := h\<rparr>"
  by (simp add: ws_send_logged_def ws_SendCommand_fst ws_IsConnected_def send_or_after_def
      split: option.split)

text \<open>The example sessions, evaluated.\<close>

lemma tcp_session_eval:
  "tcp_session =
     \<lparr>tcp_conn = Some [Wrote (tcp_identification ''edge-1'' 100)], tcp_connected = True,
      tcp_sendChan = \<lparr>buf = [], cap = 256\<rparr>,
      tcp_commandHandler = Some (handleTCPCommand scenario_A unreachable_executors),
      tcp_handled = [], tcp_spawned = [ReadPump, WritePump]\<rparr>"
  by (simp add: tcp_session_def tcp_fresh_def after_connect_def NewTCPClient_def
      tcp_SetCommandHandler_def tcp_Connect_def tcp_send_logged_def tcp_SendCommand_fst
      tcp_IsConnected_def tcp_writePump_step_def chan_defs Let_def)

lemma ws_session_eval:
  "ws_session =
     \<lparr>wsc_conn = Some [TextMessage \<lparr>ws_Type = ''identification'',
                          ws_Payload = ws_identification ''edge-1'' 100, ws_ID = ''init''\<rparr>],
      wsc_connected = True,
      wsc_sendChan = \<lparr>buf = [], cap = 256\<rparr>, wsc_reconnect = False,
      wsc_pingInterval = 30 * Second,
      wsc_commandHandler = Some (handleWebSocketCommand scenario_A unreachable_executors),
      wsc_handled = [], wsc_spawned = [ReadPump, WritePump, PingPump]\<rparr>"
  by (simp add: ws_session_def ws_fresh_def after_connect_def NewWSClient_def
      ws_SetCommandHandler_def ws_Connect_def ws_send_logged_def ws_SendCommand_fst
      ws_IsConnected_def ws_writePump_step_def chan_defs Let_def)

lemma handleTCPCommand_custom:
  "handleTCPCommand scenario_A unreachable_executors (tcp_custom i)
     = Some [(''type'', JStr ''command_response''), (''payload'', custom_response i),
             (''id'', JStr i)]"
  by (simp add: handleTCPCommand_def tcp_custom_def custom_response_def processCommand_def
      handleCustom_def CommandResponse_json_def str_field_def Let_def)

lemma handleWebSocketCommand_custom:
  "handleWebSocketCommand scenario_A unreachable_executors (ws_custom i)
     = \<lparr>ws_Type = ''command_response'', ws_Payload = custom_response i, ws_ID = i\<rparr>"
  by (simp add: handleWebSocketCommand_def ws_custom_def custom_response_def processCommand_def
      handleCustom_def CommandResponse_json_def Let_def)

lemma tcp_custom_type: "map_of (tcp_custom i) ''type'' = Some (JStr ''custom'')"
  by (simp add: tcp_custom_def)

lemma ws_custom_type: "ws_Type (ws_custom i) = ''custom''"
  by (simp add: ws_custom_def)

text \<open>
  On a connection that starts with an empty queue the identification is the first
  element queued, before the reader and the writer are started.
\<close>

lemma tcp_Connect_queues_identification:
  "buf (tcp_sendChan c) = [] \<Longrightarrow> 0 < cap (tcp_sendChan c)
   \<Longrightarrow> marshal (tcp_identification clientID now) = Some data
   \<Longrightarrow> \<exists>c'. tcp_Connect marshal now True clientID c = Inr c'
          \<and> tcp_connected c' \<and> buf (tcp_sendChan c') = [data]"
  by (simp add: tcp_Connect_def tcp_send_logged_def tcp_SendCommand_fst tcp_IsConnected_def
      send_or_after_def Let_def)

lemma ws_Connect_queues_identification:
  "buf (wsc_sendChan c) = [] \<Longrightarrow> 0 < cap (wsc_sendChan c)
   \<Longrightarrow> marshal \<lparr>ws_Type = ''identification'', ws_Payload = ws_identification clientID now,
                  ws_ID = ''init''\<rparr> = Some data
   \<Longrightarrow> \<exists>c'. ws_Connect marshal now True clientID c = Inr c'
          \<and> wsc_connected c' \<and> buf (wsc_sendChan c') = [data]"
  by (simp add: ws_Connect_def ws_send_logged_def ws_SendCommand_fst ws_IsConnected_def
      send_or_after_def Let_def)

text \<open>
  C2. After a reconnect the identification is not the first envelope sent. The queue is
  made once, in the constructor, and \<open>Connect\<close> does not empty it: the answer to command 42,
  queued in the session before, is the first thing the new writer puts on the new
  connection, and the identification of the new session still waits behind it. So on both
  transports.
\<close>

theorem stale_response_precedes_identification:
  "tcp_conn tcp_reconnected
     = Some [Wrote [(''type'', JStr ''command_response''), (''payload'', custom_response ''42''),
                    (''id'', JStr ''42'')]]
   \<and> buf (tcp_sendChan tcp_reconnected) = [tcp_identification ''edge-1'' 200]
   \<and> wsc_conn ws_reconnected
     = Some [TextMessage \<lparr>ws_Type = ''command_response'', ws_Payload = custom_response ''42'',
                          ws_ID = ''42''\<rparr>]
   \<and> buf (wsc_sendChan ws_reconnected)
     = [\<lparr>ws_Type = ''identification'', ws_Payload = ws_identification ''edge-1'' 200,
         ws_ID = ''init''\<rparr>]"
proof -
  have t: "tcp_handleMessage Some Some 102 (tcp_custom ''42'')
        (tcp_handleMessage Some Some 101 (tcp_custom ''41'') tcp_session)
      = tcp_session\<lparr>tcp_sendChan := \<lparr>buf =
           [[(''type'', JStr ''command_response''), (''payload'', custom_response ''41''),
             (''id'', JStr ''41'')],
            [(''type'', JStr ''command_response''), (''payload'', custom_response ''42''),
             (''id'', JStr ''42'')]], cap = 256\<rparr>,
          tcp_handled := [tcp_custom ''41'', tcp_custom ''42'']\<rparr>"
    by (simp add: tcp_session_eval tcp_handleMessage_def tcp_forward_def
        handleTCPCommand_custom tcp_send_logged_def tcp_SendCommand_fst tcp_IsConnected_def
        tcp_custom_type chan_defs Let_def)
  have w: "ws_handleMessage Some Some 102 (ws_custom ''42'')
        (ws_handleMessage Some Some 101 (ws_custom ''41'') ws_session)
      = ws_session\<lparr>wsc_sendChan := \<lparr>buf =
           [\<lparr>ws_Type = ''command_response'', ws_Payload = custom_response ''41'', ws_ID = ''41''\<rparr>,
            \<lparr>ws_Type = ''command_response'', ws_Payload = custom_response ''42'', ws_ID = ''42''\<rparr>],
           cap = 256\<rparr>,
          wsc_handled := [ws_custom ''41'', ws_custom ''42'']\<rparr>"
    by (simp add: ws_session_eval ws_handleMessage_def ws_forward_def
        handleWebSocketCommand_custom ws_custom_type chan_defs Let_def)
  show ?thesis
    unfolding tcp_reconnected_def ws_reconnected_def Let_def t w
    by (simp add: tcp_session_eval ws_session_eval after_connect_def tcp_Disconnect_def
        tcp_Connect_def tcp_send_logged_def tcp_SendCommand_fst tcp_IsConnected_def
        tcp_writePump_step_def ws_Disconnect_def ws_Connect_def ws_send_logged_def
        ws_SendCommand_fst ws_IsConnected_def ws_writePump_step_def chan_defs Let_def)
qed

text \<open>
  C3. An inbound envelope of type \<open>ping\<close>, \<open>status_request\<close> or
  \<open>identification_success\<close> is dealt with by \<open>handleMessage\<close> itself, on both transports:
  the list of messages passed to the injected handler is as it was, the outcome does not
  depend on which handler is injected, and what is done is the inline answer (nothing for
  \<open>identification_success\<close>, a \<open>status_response\<close> or a \<open>pong\<close> through \<open>SendCommand\<close>
  otherwise).
\<close>

theorem system_messages_not_forwarded:
  assumes "t = ''ping'' \<or> t = ''status_request'' \<or> t = ''identification_success''"
    and "tcp_unmarshal tdata = Some tmessage"
    and "map_of tmessage ''type'' = Some (JStr t)"
    and "ws_unmarshal wdata = Some wmessage"
    and "ws_Type wmessage = t"
  shows "tcp_handled (tcp_handleMessage tcp_unmarshal tcp_marshal now tdata tc) = tcp_handled tc
    \<and> tcp_handleMessage tcp_unmarshal tcp_marshal now tdata (tc\<lparr>tcp_commandHandler := th\<rparr>)
        = (tcp_handleMessage tcp_unmarshal tcp_marshal now tdata tc)\<lparr>tcp_commandHandler := th\<rparr>
    \<and> tcp_handleMessage tcp_unmarshal tcp_marshal now tdata tc
        = (if t = ''identification_success'' then tc
           else if t = ''status_request'' then
             tcp_send_logged tcp_marshal
               [(''type'', JStr ''status_response''), (''connected'', JBool (tcp_IsConnected tc)),
                (''client_id'', JStr ''tcp-client''), (''timestamp'', JNum now)] tc
           else tcp_send_logged tcp_marshal
                  [(''type'', JStr ''pong''), (''timestamp'', JNum now)] tc)
    \<and> wsc_handled (ws_handleMessage ws_unmarshal ws_marshal now wdata wc) = wsc_handled wc
    \<and> ws_handleMessage ws_unmarshal ws_marshal now wdata (wc\<lparr>wsc_commandHandler := wh\<rparr>)
        = (ws_handleMessage ws_unmarshal ws_marshal now wdata wc)\<lparr>wsc_commandHandler := wh\<rparr>
    \<and> ws_handleMessage ws_unmarshal ws_marshal now wdata wc
        = (if t = ''identification_success'' then wc
           else if t = ''status_request'' then
             ws_send_logged ws_marshal ''status_response''
               (JObj [(''connected'', JBool (ws_IsConnected wc)),
                      (''client_id'', JStr ''websocket-client''), (''timestamp'', JNum now)])
               (ws_ID wmessage) wc
           else ws_send_logged ws_marshal ''pong'' (JObj [(''timestamp'', JNum now)])
                  (ws_ID wmessage) wc)"
proof -
  have tcp: "tcp_handleMessage tcp_unmarshal tcp_marshal now tdata c
        = (if t = ''identification_success'' then c
           else if t = ''status_request'' then
             tcp_send_logged tcp_marshal
               [(''type'', JStr ''status_response''), (''connected'', JBool (tcp_IsConnected c)),
                (''client_id'', JStr ''tcp-client''), (''timestamp'', JNum now)] c
           else tcp_send_logged tcp_marshal
                  [(''type'', JStr ''pong''), (''timestamp'', JNum now)] c)" for c
    using assms(1,2,3) by (auto simp: tcp_handleMessage_def)
  have ws: "ws_handleMessage ws_unmarshal ws_marshal now wdata c
        = (if t = ''identification_success'' then c
           else if t = ''status_request'' then
             ws_send_logged ws_marshal ''status_response''
               (JObj [(''connected'', JBool (ws_IsConnected c)),
                      (''client_id'', JStr ''websocket-client''), (''timestamp'', JNum now)])
               (ws_ID wmessage) c
           else ws_send_logged ws_marshal ''pong'' (JObj [(''timestamp'', JNum now)])
                  (ws_ID wmessage) c)" for c
    using assms(1,4,5) by (auto simp: ws_handleMessage_def)
  have "tcp_handled (tcp_handleMessage tcp_unmarshal tcp_marshal now tdata tc) = tcp_handled tc"
    by (simp add: tcp tcp_send_logged_handled)
  moreover have "tcp_handleMessage tcp_unmarshal tcp_marshal now tdata (tc\<lparr>tcp_commandHandler := th\<rparr>)
        = (tcp_handleMessage tcp_unmarshal tcp_marshal now tdata tc)\<lparr>tcp_commandHandler := th\<rparr>"
    by (simp add: tcp tcp_send_logged_handler tcp_IsConnected_def)
  moreover have "wsc_handled (ws_handleMessage ws_unmarshal ws_marshal now wdata wc) = wsc_handled wc"
    by (simp add: ws ws_send_logged_handled)
  moreover have "ws_handleMessage ws_unmarshal ws_marshal now wdata (wc\<lparr>wsc_commandHandler := wh\<rparr>)
        = (ws_handleMessage ws_unmarshal ws_marshal now wdata wc)\<lparr>wsc_commandHandler := wh\<rparr>"
    by (simp add: ws ws_send_logged_handler ws_IsConnected_def)
  ultimately show ?thesis
    using tcp [of tc] ws [of wc] by simp
qed

text \<open>
  A \<open>status_request\<close> with the identifier 3, on the connected example clients: the
  handler has been passed nothing, and the queue holds the status response.
\<close>

theorem system_messages_not_forwarded_witness:
  "tcp_handled (tcp_handleMessage Some Some 150
       [(''type'', JStr ''status_request''), (''id'', JStr ''3'')] tcp_session) = []
   \<and> buf (tcp_sendChan (tcp_handleMessage Some Some 150
       [(''type'', JStr ''status_request''), (''id'', JStr ''3'')] tcp_session))
     = [[(''type'', JStr ''status_response''), (''connected'', JBool True),
         (''client_id'', JStr ''tcp-client''), (''timestamp'', JNum 150)]]
   \<and> wsc_handled (ws_handleMessage Some Some 150
       \<lparr>ws_Type = ''status_request'', ws_Payload = JNull, ws_ID = ''3''\<rparr> ws_session) = []
   \<and> buf (wsc_sendChan (ws_handleMessage Some Some 150
       \<lparr>ws_Type = ''status_request'', ws_Payload = JNull, ws_ID = ''3''\<rparr> ws_session))
     = [\<lparr>ws_Type = ''status_response'',
         ws_Payload = JObj [(''connected'', JBool True),
                            (''client_id'', JStr ''websocket-client''), (''timestamp'', JNum 150)],
         ws_ID = ''3''\<rparr>]"
proof -
  have a: "''status_request'' = ''ping'' \<or> ''status_request'' = ''status_request''
      \<or> ''status_request'' = ''identification_success''" by simp
  have b: "Some [(''type'', JStr ''status_request''), (''id'', JStr ''3'')]
      = Some [(''type'', JStr ''status_request''), (''id'', JStr ''3'')]" by simp
  have c: "map_of [(''type'', JStr ''status_request''), (''id'', JStr ''3'')] ''type''
      = Some (JStr ''status_request'')" by simp
  have d: "Some \<lparr>ws_Type = ''status_request'', ws_Payload = JNull, ws_ID = ''3''\<rparr>
      = Some \<lparr>ws_Type = ''status_request'', ws_Payload = JNull, ws_ID = ''3''\<rparr>" by simp
  have e: "ws_Type \<lparr>ws_Type = ''status_request'', ws_Payload = JNull, ws_ID = ''3''\<rparr>
      = ''status_request''" by simp
  note main = system_messages_not_forwarded
    [where t = "''status_request''" and tcp_unmarshal = Some and tcp_marshal = Some
       and tdata = "[(''type'', JStr ''status_request''), (''id'', JStr ''3'')]"
       and tmessage = "[(''type'', JStr ''status_request''), (''id'', JStr ''3'')]"
       and ws_unmarshal = Some and ws_marshal = Some
       and wdata = "\<lparr>ws_Type = ''status_request'', ws_Payload = JNull, ws_ID = ''3''\<rparr>"
       and wmessage = "\<lparr>ws_Type = ''status_request'', ws_Payload = JNull, ws_ID = ''3''\<rparr>"
       and now = 150 and tc = tcp_session and wc = ws_session
       and th = None and wh = None, OF a b c d e]
  have th: "tcp_handled tcp_session = []" and wh: "wsc_handled ws_session = []"
    by (simp_all add: tcp_session_eval ws_session_eval)
  from main have t1: "tcp_handled (tcp_handleMessage Some Some 150
       [(''type'', JStr ''status_request''), (''id'', JStr ''3'')] tcp_session) = []"
    unfolding th by (rule conjunct1)
  note rest = main [THEN conjunct2, THEN conjunct2]
  from rest have t3: "tcp_handleMessage Some Some 150
       [(''type'', JStr ''status_request''), (''id'', JStr ''3'')] tcp_session
     = tcp_send_logged Some
         [(''type'', JStr ''status_response''), (''connected'', JBool (tcp_IsConnected tcp_session)),
          (''client_id'', JStr ''tcp-client''), (''timestamp'', JNum 150)] tcp_session"
    by (simp only: conjunct1 char.inject list.inject simp_thms if_False if_True)
  from rest [THEN conjunct2] have w1: "wsc_handled (ws_handleMessage Some Some 150
       \<lparr>ws_Type = ''status_request'', ws_Payload = JNull, ws_ID = ''3''\<rparr> ws_session) = []"
    unfolding wh by (rule conjunct1)
  from rest [THEN conjunct2, THEN conjunct2, THEN conjunct2] have w3: "ws_handleMessage Some Some 150
       \<lparr>ws_Type = ''status_request'', ws_Payload = JNull, ws_ID = ''3''\<rparr> ws_session
     = ws_send_logged Some ''status_response''
         (JObj [(''connected'', JBool (ws_IsConnected ws_session)),
                (''client_id'', JStr ''websocket-client''), (''timestamp'', JNum 150)])
         ''3'' ws_session"
    by simp
  have t4: "buf (tcp_sendChan (tcp_send_logged Some
         [(''type'', JStr ''status_response''), (''connected'', JBool (tcp_IsConnected tcp_session)),
          (''client_id'', JStr ''tcp-client''), (''timestamp'', JNum 150)] tcp_session))
     = [[(''type'', JStr ''status_response''), (''connected'', JBool True),
         (''client_id'', JStr ''tcp-client''), (''timestamp'', JNum 150)]]"
    by (simp add: tcp_session_eval tcp_send_logged_def tcp_SendCommand_fst
        tcp_IsConnected_def send_or_after_def)
  have w4: "buf (wsc_sendChan (ws_send_logged Some ''status_response''
         (JObj [(''connected'', JBool (ws_IsConnected ws_session)),
                (''client_id'', JStr ''websocket-client''), (''timestamp'', JNum 150)])
         ''3'' ws_session))
     = [\<lparr>ws_Type = ''status_response'',
         ws_Payload = JObj [(''connected'', JBool True),
                            (''client_id'', JStr ''websocket-client''), (''timestamp'', JNum 150)],
         ws_ID = ''3''\<rparr>]"
    by (simp add: ws_session_eval ws_send_logged_def ws_SendCommand_fst
        ws_IsConnected_def send_or_after_def)
  show ?thesis
    unfolding t3 w3 t4 w4 using t1 w1 unfolding t3 w3 by simp
qed

text \<open>
  On the frame transport a ping is answered with a pong that carries the timestamp as its
  payload and the identifier of the ping.
\<close>

lemma ws_ping_answered:
  assumes "unmarshal data = Some message" and "ws_Type message = ''ping''"
    and "wsc_connected c"
    and "marshal \<lparr>ws_Type = ''pong'', ws_Payload = JObj [(''timestamp'', JNum now)],
                  ws_ID = ws_ID message\<rparr> = Some reply"
    and "length (buf (wsc_sendChan c)) < cap (wsc_sendChan c)"
  shows "ws_handleMessage unmarshal marshal now data c
    = c\<lparr>wsc_sendChan := (wsc_sendChan c)\<lparr>buf := buf (wsc_sendChan c) @ [reply]\<rparr>\<rparr>"
  using assms by (simp add: ws_handleMessage_def ws_send_logged_enqueues)

text \<open>
  On the stream transport the pong is built from the clock alone: nothing of the ping,
  its identifier included, is read.
\<close>

lemma tcp_ping_answered:
  assumes "unmarshal data = Some message" and "map_of message ''type'' = Some (JStr ''ping'')"
    and "tcp_connected c"
    and "marshal [(''type'', JStr ''pong''), (''timestamp'', JNum now)] = Some reply"
    and "length (buf (tcp_sendChan c)) < cap (tcp_sendChan c)"
  shows "tcp_handleMessage unmarshal marshal now data c
    = c\<lparr>tcp_sendChan := (tcp_sendChan c)\<lparr>buf := buf (tcp_sendChan c) @ [reply]\<rparr>\<rparr>"
  using assms by (simp add: tcp_handleMessage_def tcp_send_logged_enqueues)

text \<open>
  C5. The ping \<open>{"type":"ping","id":"7"}\<close> on the connected example clients. The frame
  transport queues a pong with the identifier 7 and the timestamp as payload. The stream
  transport queues \<open>{"type":"pong","timestamp":...}\<close>: no \<open>id\<close>, no \<open>payload\<close>. On
  neither is the handler called.
\<close>

theorem tcp_pong_without_id:
  "buf (tcp_sendChan (tcp_handleMessage Some Some 150 tcp_ping_7 tcp_session))
     = [[(''type'', JStr ''pong''), (''timestamp'', JNum 150)]]
   \<and> map_of (hd (buf (tcp_sendChan (tcp_handleMessage Some Some 150 tcp_ping_7 tcp_session))))
       ''id'' = None
   \<and> map_of (hd (buf (tcp_sendChan (tcp_handleMessage Some Some 150 tcp_ping_7 tcp_session))))
       ''payload'' = None
   \<and> tcp_handled (tcp_handleMessage Some Some 150 tcp_ping_7 tcp_session) = []
   \<and> buf (wsc_sendChan (ws_handleMessage Some Some 150 ws_ping_7 ws_session))
     = [\<lparr>ws_Type = ''pong'', ws_Payload = JObj [(''timestamp'', JNum 150)], ws_ID = ''7''\<rparr>]
   \<and> wsc_handled (ws_handleMessage Some Some 150 ws_ping_7 ws_session) = []"
  by (simp add: tcp_ping_7_def ws_ping_7_def tcp_session_eval ws_session_eval
      tcp_handleMessage_def ws_handleMessage_def tcp_send_logged_def tcp_SendCommand_fst
      tcp_IsConnected_def ws_send_logged_def ws_SendCommand_fst ws_IsConnected_def
      send_or_after_def)

text \<open>No function of a transport changes the capacity of its queue.\<close>

lemma tcp_send_logged_cap:
  "cap (tcp_sendChan (tcp_send_logged marshal payload c)) = cap (tcp_sendChan c)"
  by (simp add: tcp_send_logged_def tcp_SendCommand_fst send_or_after_def split: option.split)

lemma ws_send_logged_cap:
  "cap (wsc_sendChan (ws_send_logged marshal t p i c)) = cap (wsc_sendChan c)"
  by (simp add: ws_send_logged_def ws_SendCommand_fst send_or_after_def split: option.split)

lemma tcp_writePump_step_cap:
  "cap (tcp_sendChan (fst (tcp_writePump_step ok c))) = cap (tcp_sendChan c)"
  by (simp add: tcp_writePump_step_def chan_receive_def Let_def
      split: list.split option.split)

lemma ws_writePump_step_cap:
  "cap (wsc_sendChan (fst (ws_writePump_step ok c))) = cap (wsc_sendChan c)"
  by (simp add: ws_writePump_step_def chan_receive_def Let_def
      split: list.split option.split)

lemma tcp_handleMessage_cap:
  "cap (tcp_sendChan (tcp_handleMessage unmarshal marshal now data c)) = cap (tcp_sendChan c)"
  by (simp add: tcp_handleMessage_def tcp_forward_def tcp_send_logged_cap Let_def
      split: option.split json.split)

lemma ws_handleMessage_cap:
  "cap (wsc_sendChan (ws_handleMessage unmarshal marshal now data c)) = cap (wsc_sendChan c)"
  by (simp add: ws_handleMessage_def ws_forward_def ws_send_logged_cap send_or_after_def Let_def
      split: option.split)

lemma tcp_Connect_cap:
  "tcp_Connect marshal now dialed clientID c = Inr c'
   \<Longrightarrow> cap (tcp_sendChan c') = cap (tcp_sendChan c)"
  by (auto simp: tcp_Connect_def tcp_send_logged_def tcp_SendCommand_fst send_or_after_def
      Let_def split: if_splits option.splits)

lemma ws_Connect_cap:
  "ws_Connect marshal now dialed clientID c = Inr c'
   \<Longrightarrow> cap (wsc_sendChan c') = cap (wsc_sendChan c)"
  by (auto simp: ws_Connect_def ws_send_logged_def ws_SendCommand_fst send_or_after_def
      Let_def split: if_splits option.splits)

lemma tcp_Disconnect_cap: "cap (tcp_sendChan (tcp_Disconnect c)) = cap (tcp_sendChan c)"
  by (simp add: tcp_Disconnect_def Let_def split: option.split)

lemma ws_Disconnect_cap: "cap (wsc_sendChan (ws_Disconnect ok c)) = cap (wsc_sendChan c)"
  by (simp add: ws_Disconnect_def Let_def split: option.split)





text \<open>
  C8, as the claim states it: a keepalive probe on each transport, and a probe failure
  treated as a disconnect. The stream transport starts a reader and a writer and no
  keepalive task; on the frame transport the client is still connected after a probe
  that failed.
\<close>

theorem counterexample_keepalive:
  "PingPump \<notin> set (tcp_spawned tcp_session)
   \<and> ws_IsConnected (fst (ws_pingPump_tick False ws_session))"
  by (simp add: tcp_session_eval ws_session_eval ws_pingPump_tick_def ws_IsConnected_def)

text \<open>
  C8, amended. Every successful \<open>Connect\<close> of the frame transport starts a keepalive task
  beside the reader and the writer; the stream transport starts a reader and a writer only.
  The keepalive ticker is 54 seconds, the heartbeat timer of the supervisor 30 seconds. At
  a tick a ping frame is written when the client is connected, and nothing but the
  connection is touched; when the client is not connected nothing is written and the task
  goes on. A probe that fails changes nothing of the client (it stays connected) and ends
  the keepalive task only.
\<close>

theorem keepalive_frame_transport:
  "(ws_Connect wmarshal now True clientID wc = Inr wc'
      \<longrightarrow> wsc_connected wc' \<and> wsc_spawned wc' = wsc_spawned wc @ [ReadPump, WritePump, PingPump])
   \<and> (tcp_Connect tmarshal now True clientID tc = Inr tc'
      \<longrightarrow> tcp_connected tc' \<and> tcp_spawned tc' = tcp_spawned tc @ [ReadPump, WritePump])
   \<and> sint pingPump_ticker = 54 * 1000000000 \<and> sint heartbeat_timer = 30 * 1000000000
   \<and> (ws_IsConnected c \<and> wsc_conn c = Some ops \<and> WSClosed \<notin> set ops
      \<longrightarrow> ws_pingPump_tick True c = (c\<lparr>wsc_conn := Some (ops @ [PingMessage])\<rparr>, True))
   \<and> (\<not> ws_IsConnected c \<longrightarrow> ws_pingPump_tick ok c = (c, True))
   \<and> ws_pingPump_tick False c = (c, \<not> ws_IsConnected c)"
proof -
  have a: "ws_Connect wmarshal now True clientID wc = Inr wc'
      \<longrightarrow> wsc_connected wc' \<and> wsc_spawned wc' = wsc_spawned wc @ [ReadPump, WritePump, PingPump]"
    by (auto simp: ws_Connect_def ws_send_logged_def ws_SendCommand_fst send_or_after_def
        ws_IsConnected_def Let_def split: option.splits if_splits)
  have b: "tcp_Connect tmarshal now True clientID tc = Inr tc'
      \<longrightarrow> tcp_connected tc' \<and> tcp_spawned tc' = tcp_spawned tc @ [ReadPump, WritePump]"
    by (auto simp: tcp_Connect_def tcp_send_logged_def tcp_SendCommand_fst send_or_after_def
        tcp_IsConnected_def Let_def split: option.splits if_splits)
  have t: "sint pingPump_ticker = 54 * 1000000000 \<and> sint heartbeat_timer = 30 * 1000000000"
    by (simp add: pingPump_ticker_def heartbeat_timer_def Second_def)
  have d: "ws_IsConnected c \<and> wsc_conn c = Some ops \<and> WSClosed \<notin> set ops
      \<longrightarrow> ws_pingPump_tick True c = (c\<lparr>wsc_conn := Some (ops @ [PingMessage])\<rparr>, True)"
    by (simp add: ws_pingPump_tick_def)
  have e: "\<not> ws_IsConnected c \<longrightarrow> ws_pingPump_tick ok c = (c, True)"
    by (simp add: ws_pingPump_tick_def)
  have f: "ws_pingPump_tick False c = (c, \<not> ws_IsConnected c)"
    by (simp add: ws_pingPump_tick_def split: option.split)
  from a b t d e f show ?thesis by blast
qed

text \<open>
  The example session of the frame transport: its keepalive task was started by
  \<open>Connect\<close>; a tick writes a ping frame after the identification; a failed probe leaves
  the session as it is.
\<close>

theorem keepalive_frame_transport_witness:
  "wsc_spawned (after_connect (ws_Connect Some 100 True ''edge-1'' ws_fresh) ws_fresh)
     = [ReadPump, WritePump, PingPump]
   \<and> tcp_spawned (after_connect (tcp_Connect Some 100 True ''edge-1'' tcp_fresh) tcp_fresh)
     = [ReadPump, WritePump]
   \<and> wsc_conn (fst (ws_pingPump_tick True ws_session))
     = Some [TextMessage \<lparr>ws_Type = ''identification'',
                          ws_Payload = ws_identification ''edge-1'' 100, ws_ID = ''init''\<rparr>,
             PingMessage]
   \<and> ws_pingPump_tick False ws_session = (ws_session, False)
   \<and> ws_pingPump_tick True (ws_Disconnect True ws_session)
     = (ws_Disconnect True ws_session, True)"
proof -
  obtain wc' where w: "ws_Connect Some 100 True ''edge-1'' ws_fresh = Inr wc'"
    by (simp add: ws_Connect_def Let_def)
  obtain tc' where t: "tcp_Connect Some 100 True ''edge-1'' tcp_fresh = Inr tc'"
    by (simp add: tcp_Connect_def Let_def)
  let ?ident = "TextMessage \<lparr>ws_Type = ''identification'',
      ws_Payload = ws_identification ''edge-1'' 100, ws_ID = ''init''\<rparr>"
  note k = keepalive_frame_transport
    [where wmarshal = Some and tmarshal = Some and now = 100 and clientID = "''edge-1''"
       and wc = ws_fresh and tc = tcp_fresh and wc' = wc' and tc' = tc'
       and ops = "[?ident]"]
  have s1: "wsc_spawned wc' = [ReadPump, WritePump, PingPump]"
    using k [of ws_session True] w
    by (simp add: ws_fresh_def ws_SetCommandHandler_def NewWSClient_def)
  have s2: "tcp_spawned tc' = [ReadPump, WritePump]"
    using k [of ws_session True] t
    by (simp add: tcp_fresh_def tcp_SetCommandHandler_def NewTCPClient_def)
  have up: "ws_IsConnected ws_session \<and> wsc_conn ws_session = Some [?ident]
      \<and> WSClosed \<notin> set [?ident]"
    by (simp add: ws_session_eval ws_IsConnected_def)
  have s3: "wsc_conn (fst (ws_pingPump_tick True ws_session)) = Some [?ident, PingMessage]"
    using k [of ws_session True] up by simp
  have s4: "ws_pingPump_tick False ws_session = (ws_session, False)"
    using k [of ws_session True] up by simp
  have down: "\<not> ws_IsConnected (ws_Disconnect True ws_session)"
    by (simp add: ws_session_eval ws_IsConnected_def ws_Disconnect_def)
  have s5: "ws_pingPump_tick True (ws_Disconnect True ws_session)
      = (ws_Disconnect True ws_session, True)"
    using k [of "ws_Disconnect True ws_session" True] down by simp
  from s1 s2 s3 s4 s5 show ?thesis
    by (simp add: after_connect_def w t)
qed

end
